theory Spec2Isabelle
  imports Complex_Main
begin

section \<open>The distance calculation of python-sc2 (sc2/distances.py)\<close>

text \<open>
  The class \<^verbatim>\<open>DistanceCalculation\<close> answers squared-distance queries between game units,
  either by direct arithmetic or from a table of all pairwise distances that is rebuilt
  once per game loop. The embedding keeps the object as a record that every method takes
  and returns, every \<^verbatim>\<open>assert\<close> and every exception of the interpreter as an error value,
  and the two attributes that \<^verbatim>\<open>_distances_override_functions\<close> rebinds as two fields.

  Coordinates are doubles in the source. They are real numbers here, so the arithmetic of
  the model is exact; rounding enters as a parameter, where the two ways of computing a
  squared distance are compared. Assertions are enabled (the
  interpreter does not run with \<^verbatim>\<open>-O\<close>).
\<close>

subsection \<open>Data\<close>

text \<open>What the methods read of a \<^verbatim>\<open>Unit\<close>: its position, its tag and its index.\<close>

record sc2_unit =
  position_tuple :: "real \<times> real"
  tag :: int
  distance_calculation_index :: int

text \<open>What the methods read of the \<^verbatim>\<open>GameState\<close>.\<close>

record game_state =
  game_loop :: int

text \<open>
  The payload of an \<^verbatim>\<open>AssertionError\<close>: the fixed message of \<^verbatim>\<open>square_to_condensed\<close>, the
  values the two formatted messages interpolate, or nothing for a bare \<^verbatim>\<open>assert\<close>.
\<close>

datatype assert_msg =
    No_message
  | No_diagonal_elements
  | Condensed_index_is_larger int nat sc2_unit sc2_unit
  | Selected_method_was int

datatype error =
    AttributeError
  | AssertionError assert_msg
  | ValueError
  | TypeError
  | IndexError

text \<open>The values the accessors and queries hand back: \<^verbatim>\<open>None\<close>, a number, a 1-d or a 2-d array.\<close>

datatype pyval =
    PyNone
  | Num real
  | Vec "real list"
  | Mat "real list list"

text \<open>The implementations that the two rebindable attributes can hold.\<close>

datatype unit_to_unit_fn =
    Unit_to_unit_method0
  | Unit_to_unit_method1
  | Unit_to_unit_method2

datatype build_fn =
    Build_method1
  | Build_method2
  | Build_method3

text \<open>
  The object. \<^verbatim>\<open>state\<close> is \<^verbatim>\<open>None\<close> after \<^verbatim>\<open>__init__\<close>; \<^verbatim>\<open>all_units\<close> is supplied by the
  subclass; the last two fields are the attributes \<^verbatim>\<open>_distance_squared_unit_to_unit\<close> and
  \<^verbatim>\<open>calculate_distances\<close>, absent until \<^verbatim>\<open>_distances_override_functions\<close> binds them.
\<close>

record distance_calculation =
  state :: "game_state option"
  all_units :: "sc2_unit list"
  generated_frame2 :: int
  cached_pdist :: "real list option"
  cached_cdist :: "real list list option"
  distance_squared_unit_to_unit :: "unit_to_unit_fn option"
  calculate_distances :: "build_fn option"

type_synonym 'a result = "(error + 'a) \<times> distance_calculation"

definition init :: "sc2_unit list \<Rightarrow> distance_calculation" where
  "init units =
     \<lparr>state = None, all_units = units, generated_frame2 = - 100,
      cached_pdist = None, cached_cdist = None,
      distance_squared_unit_to_unit = None, calculate_distances = None\<rparr>"

definition units_count :: "distance_calculation \<Rightarrow> int" where
  "units_count s = int (length (all_units s))"

subsection \<open>The library calls (numpy, scipy)\<close>

text \<open>
  These are not code of the repository. Each is written after the library's documented
  behaviour on the arguments the source passes.

  \<^verbatim>\<open>np.fromiter(it, count=c)\<close> reads exactly \<^verbatim>\<open>c\<close> items and raises \<^verbatim>\<open>ValueError\<close> when the
  iterator is shorter; \<^verbatim>\<open>reshape((n, 2))\<close> raises \<^verbatim>\<open>ValueError\<close> unless the size is \<^verbatim>\<open>2 * n\<close>,
  \<^verbatim>\<open>reshape((-1, 2))\<close> unless it is even.
\<close>

definition fromiter :: "real list \<Rightarrow> nat \<Rightarrow> error + real list" where
  "fromiter xs c = (if length xs < c then Inl ValueError else Inr (take c xs))"

fun rows2 :: "real list \<Rightarrow> real list list" where
  "rows2 (x # y # xs) = [x, y] # rows2 xs"
| "rows2 _ = []"

definition reshape_n_2 :: "real list \<Rightarrow> nat \<Rightarrow> error + real list list" where
  "reshape_n_2 xs n = (if length xs \<noteq> n * 2 then Inl ValueError else Inr (rows2 xs))"

definition reshape_any_2 :: "real list \<Rightarrow> error + real list list" where
  "reshape_any_2 xs = (if length xs mod 2 \<noteq> 0 then Inl ValueError else Inr (rows2 xs))"

text \<open>The metric \<^verbatim>\<open>"sqeuclidean"\<close> between two rows.\<close>

definition sqeuclidean :: "real list \<Rightarrow> real list \<Rightarrow> real" where
  "sqeuclidean u v = sum_list (map (\<lambda>(a, b). (a - b)\<^sup>2) (zip u v))"

text \<open>
  \<^verbatim>\<open>pdist(X, "sqeuclidean")\<close>: the condensed vector, row \<^verbatim>\<open>i\<close> against every later row
  \<^verbatim>\<open>j\<close>, for ascending \<^verbatim>\<open>i\<close> and then ascending \<^verbatim>\<open>j\<close>.
\<close>

fun pdist_sqeuclidean :: "real list list \<Rightarrow> real list" where
  "pdist_sqeuclidean [] = []"
| "pdist_sqeuclidean (p # ps) = map (sqeuclidean p) ps @ pdist_sqeuclidean ps"

text \<open>\<^verbatim>\<open>cdist(XA, XB, "sqeuclidean")\<close>: one row per row of \<^verbatim>\<open>XA\<close>, one column per row of \<^verbatim>\<open>XB\<close>.\<close>

definition cdist_sqeuclidean :: "real list list \<Rightarrow> real list list \<Rightarrow> real list list" where
  "cdist_sqeuclidean xa xb = map (\<lambda>a. map (sqeuclidean a) xb) xa"

text \<open>
  Indexing an axis of length \<^verbatim>\<open>n\<close> with an integer: a negative index counts from the end,
  anything outside \<^verbatim>\<open>[-n, n)\<close> raises \<^verbatim>\<open>IndexError\<close>.
\<close>

definition axis_index :: "nat \<Rightarrow> int \<Rightarrow> error + nat" where
  "axis_index n k =
     (let k' = (if k < 0 then int n + k else k)
      in if 0 \<le> k' \<and> k' < int n then Inr (nat k') else Inl IndexError)"

text \<open>
  \<^verbatim>\<open>a[k]\<close>: \<^verbatim>\<open>None\<close> is not subscriptable, a scalar cannot be indexed, a vector gives an
  element and a matrix a row.
\<close>

definition getitem1 :: "pyval \<Rightarrow> int \<Rightarrow> error + pyval" where
  "getitem1 a k =
     (case a of
        PyNone \<Rightarrow> Inl TypeError
      | Num x \<Rightarrow> Inl IndexError
      | Vec v \<Rightarrow> (case axis_index (length v) k of Inl e \<Rightarrow> Inl e | Inr n \<Rightarrow> Inr (Num (v ! n)))
      | Mat m \<Rightarrow> (case axis_index (length m) k of Inl e \<Rightarrow> Inl e | Inr n \<Rightarrow> Inr (Vec (m ! n))))"

text \<open>\<^verbatim>\<open>a[i, j]\<close>: a vector has too few axes; a matrix gives the element of row \<^verbatim>\<open>i\<close>, column \<^verbatim>\<open>j\<close>.\<close>

definition getitem2 :: "pyval \<Rightarrow> int \<Rightarrow> int \<Rightarrow> error + pyval" where
  "getitem2 a i j =
     (case a of
        PyNone \<Rightarrow> Inl TypeError
      | Num x \<Rightarrow> Inl IndexError
      | Vec v \<Rightarrow> Inl IndexError
      | Mat m \<Rightarrow>
          (case axis_index (length m) i of
             Inl e \<Rightarrow> Inl e
           | Inr r \<Rightarrow>
               (case axis_index (length (m ! r)) j of
                  Inl e \<Rightarrow> Inl e
                | Inr c \<Rightarrow> Inr (Num (m ! r ! c)))))"

subsection \<open>Index mapping\<close>

text \<open>
  \<^verbatim>\<open>square_to_condensed\<close>: the assertion, the swap, the formula. \<^verbatim>\<open>//\<close> on integers is
  floor division, as \<open>div\<close> on \<open>int\<close> is; both bind as \<^verbatim>\<open>*\<close> does, to the left.
\<close>

definition square_to_condensed :: "distance_calculation \<Rightarrow> int \<Rightarrow> int \<Rightarrow> error + int" where
  "square_to_condensed s i j =
     (if \<not> i \<noteq> j then Inl (AssertionError No_diagonal_elements)
      else
        let (i, j) = (if i < j then (j, i) else (i, j))
        in Inr (units_count s * j - j * (j + 1) div 2 + i - 1 - j))"

subsection \<open>Direct arithmetic\<close>

text \<open>\<^verbatim>\<open>pow(x, 2)\<close> is the square.\<close>

definition distance_math_hypot_squared :: "real \<times> real \<Rightarrow> real \<times> real \<Rightarrow> real" where
  "distance_math_hypot_squared p1 p2 = (fst p1 - fst p2)\<^sup>2 + (snd p1 - snd p2)\<^sup>2"

definition distance_squared_unit_to_unit_method0 :: "sc2_unit \<Rightarrow> sc2_unit \<Rightarrow> real" where
  "distance_squared_unit_to_unit_method0 unit1 unit2 =
     distance_math_hypot_squared (position_tuple unit1) (position_tuple unit2)"

subsection \<open>The builds\<close>

text \<open>The generator \<^verbatim>\<open>flat_positions\<close>: both coordinates of every unit, in the order of \<^verbatim>\<open>all_units\<close>.\<close>

definition flat_positions :: "sc2_unit list \<Rightarrow> real list" where
  "flat_positions units =
     concat (map (\<lambda>unit. [fst (position_tuple unit), snd (position_tuple unit)]) units)"

text \<open>
  \<^verbatim>\<open>positions_array\<close> as methods 1 and 2 compute it, with \<^verbatim>\<open>reshape((self._units_count, 2))\<close>,
  and as method 3 does, with \<^verbatim>\<open>reshape((-1, 2))\<close>.
\<close>

definition positions_array_n_2 :: "distance_calculation \<Rightarrow> error + real list list" where
  "positions_array_n_2 s =
     (case fromiter (flat_positions (all_units s)) (2 * length (all_units s)) of
        Inl e \<Rightarrow> Inl e
      | Inr xs \<Rightarrow> reshape_n_2 xs (length (all_units s)))"

definition positions_array_any_2 :: "distance_calculation \<Rightarrow> error + real list list" where
  "positions_array_any_2 s =
     (case fromiter (flat_positions (all_units s)) (2 * length (all_units s)) of
        Inl e \<Rightarrow> Inl e
      | Inr xs \<Rightarrow> reshape_any_2 xs)"

text \<open>Reading the attributes \<^verbatim>\<open>_cached_pdist\<close> and \<^verbatim>\<open>_cached_cdist\<close> as values.\<close>

definition pdist_value :: "real list option \<Rightarrow> pyval" where
  "pdist_value c = (case c of None \<Rightarrow> PyNone | Some v \<Rightarrow> Vec v)"

definition cdist_value :: "real list list option \<Rightarrow> pyval" where
  "cdist_value c = (case c of None \<Rightarrow> PyNone | Some m \<Rightarrow> Mat m)"

text \<open>
  The rest of each build, from the point where \<^verbatim>\<open>positions_array\<close> is bound: methods 1 and
  2 assert \<^verbatim>\<open>len(positions_array) == self._units_count\<close> and then store and return the
  table; method 3 stores and returns it with no assertion.
\<close>

definition assert_and_cache_pdist :: "distance_calculation \<Rightarrow> real list list \<Rightarrow> pyval result" where
  "assert_and_cache_pdist s positions_array =
     (if \<not> int (length positions_array) = units_count s
      then (Inl (AssertionError No_message), s)
      else
        let s' = s\<lparr>cached_pdist := Some (pdist_sqeuclidean positions_array)\<rparr>
        in (Inr (pdist_value (cached_pdist s')), s'))"

definition assert_and_cache_cdist :: "distance_calculation \<Rightarrow> real list list \<Rightarrow> pyval result" where
  "assert_and_cache_cdist s positions_array =
     (if \<not> int (length positions_array) = units_count s
      then (Inl (AssertionError No_message), s)
      else
        let s' = s\<lparr>cached_cdist := Some (cdist_sqeuclidean positions_array positions_array)\<rparr>
        in (Inr (cdist_value (cached_cdist s')), s'))"

definition cache_cdist :: "distance_calculation \<Rightarrow> real list list \<Rightarrow> pyval result" where
  "cache_cdist s positions_array =
     (let s' = s\<lparr>cached_cdist := Some (cdist_sqeuclidean positions_array positions_array)\<rparr>
      in (Inr (cdist_value (cached_cdist s')), s'))"

text \<open>
  The three builds. The first statement of each writes \<^verbatim>\<open>_generated_frame2\<close>, so the
  counter stays written when a later statement raises. Reading \<^verbatim>\<open>self.state.game_loop\<close>
  while \<^verbatim>\<open>state\<close> is \<^verbatim>\<open>None\<close> raises \<^verbatim>\<open>AttributeError\<close>.
\<close>

definition calculate_distances_method1 :: "distance_calculation \<Rightarrow> pyval result" where
  "calculate_distances_method1 s =
     (case state s of
        None \<Rightarrow> (Inl AttributeError, s)
      | Some g \<Rightarrow>
          let s1 = s\<lparr>generated_frame2 := game_loop g\<rparr>
          in (case positions_array_n_2 s1 of
                Inl e \<Rightarrow> (Inl e, s1)
              | Inr positions_array \<Rightarrow> assert_and_cache_pdist s1 positions_array))"

definition calculate_distances_method2 :: "distance_calculation \<Rightarrow> pyval result" where
  "calculate_distances_method2 s =
     (case state s of
        None \<Rightarrow> (Inl AttributeError, s)
      | Some g \<Rightarrow>
          let s1 = s\<lparr>generated_frame2 := game_loop g\<rparr>
          in (case positions_array_n_2 s1 of
                Inl e \<Rightarrow> (Inl e, s1)
              | Inr positions_array \<Rightarrow> assert_and_cache_cdist s1 positions_array))"

definition calculate_distances_method3 :: "distance_calculation \<Rightarrow> pyval result" where
  "calculate_distances_method3 s =
     (case state s of
        None \<Rightarrow> (Inl AttributeError, s)
      | Some g \<Rightarrow>
          let s1 = s\<lparr>generated_frame2 := game_loop g\<rparr>
          in (case positions_array_any_2 s1 of
                Inl e \<Rightarrow> (Inl e, s1)
              | Inr positions_array \<Rightarrow> cache_cdist s1 positions_array))"

text \<open>The call \<^verbatim>\<open>self.calculate_distances()\<close>: whatever the attribute is bound to, if anything.\<close>

definition call_calculate_distances :: "distance_calculation \<Rightarrow> pyval result" where
  "call_calculate_distances s =
     (case calculate_distances s of
        None \<Rightarrow> (Inl AttributeError, s)
      | Some Build_method1 \<Rightarrow> calculate_distances_method1 s
      | Some Build_method2 \<Rightarrow> calculate_distances_method2 s
      | Some Build_method3 \<Rightarrow> calculate_distances_method3 s)"

subsection \<open>The cache accessors\<close>

text \<open>The properties \<^verbatim>\<open>_pdist\<close> and \<^verbatim>\<open>_cdist\<close>.\<close>

definition pdist_property :: "distance_calculation \<Rightarrow> pyval result" where
  "pdist_property s =
     (case state s of
        None \<Rightarrow> (Inl AttributeError, s)
      | Some g \<Rightarrow>
          if generated_frame2 s \<noteq> game_loop g then call_calculate_distances s
          else (Inr (pdist_value (cached_pdist s)), s))"

definition cdist_property :: "distance_calculation \<Rightarrow> pyval result" where
  "cdist_property s =
     (case state s of
        None \<Rightarrow> (Inl AttributeError, s)
      | Some g \<Rightarrow>
          if generated_frame2 s \<noteq> game_loop g then call_calculate_distances s
          else (Inr (cdist_value (cached_cdist s)), s))"

subsection \<open>Queries on the tables\<close>

text \<open>
  Method 1. The assertion reads the attribute \<^verbatim>\<open>_cached_pdist\<close> itself (\<^verbatim>\<open>len(None)\<close> is a
  \<^verbatim>\<open>TypeError\<close>); only the lookup after it goes through the property.
\<close>

definition distance_squared_unit_to_unit_method1 ::
  "distance_calculation \<Rightarrow> sc2_unit \<Rightarrow> sc2_unit \<Rightarrow> pyval result" where
  "distance_squared_unit_to_unit_method1 s unit1 unit2 =
     (if tag unit1 = tag unit2 then (Inr (Num 0), s)
      else
        case square_to_condensed s (distance_calculation_index unit1)
               (distance_calculation_index unit2) of
          Inl e \<Rightarrow> (Inl e, s)
        | Inr condensed_index \<Rightarrow>
            (case cached_pdist s of
               None \<Rightarrow> (Inl TypeError, s)
             | Some v \<Rightarrow>
                 if \<not> condensed_index < int (length v)
                 then (Inl (AssertionError
                        (Condensed_index_is_larger condensed_index (length v) unit1 unit2)), s)
                 else
                   (case pdist_property s of
                      (Inl e, s') \<Rightarrow> (Inl e, s')
                    | (Inr a, s') \<Rightarrow>
                        (case getitem1 a condensed_index of
                           Inl e \<Rightarrow> (Inl e, s')
                         | Inr distance \<Rightarrow> (Inr distance, s')))))"

definition distance_squared_unit_to_unit_method2 ::
  "distance_calculation \<Rightarrow> sc2_unit \<Rightarrow> sc2_unit \<Rightarrow> pyval result" where
  "distance_squared_unit_to_unit_method2 s unit1 unit2 =
     (case cdist_property s of
        (Inl e, s') \<Rightarrow> (Inl e, s')
      | (Inr a, s') \<Rightarrow>
          (case getitem2 a (distance_calculation_index unit1)
                  (distance_calculation_index unit2) of
             Inl e \<Rightarrow> (Inl e, s')
           | Inr distance \<Rightarrow> (Inr distance, s')))"

text \<open>The call \<^verbatim>\<open>self._distance_squared_unit_to_unit(unit1, unit2)\<close>.\<close>

definition call_distance_squared_unit_to_unit ::
  "distance_calculation \<Rightarrow> sc2_unit \<Rightarrow> sc2_unit \<Rightarrow> pyval result" where
  "call_distance_squared_unit_to_unit s unit1 unit2 =
     (case distance_squared_unit_to_unit s of
        None \<Rightarrow> (Inl AttributeError, s)
      | Some Unit_to_unit_method0 \<Rightarrow>
          (Inr (Num (distance_squared_unit_to_unit_method0 unit1 unit2)), s)
      | Some Unit_to_unit_method1 \<Rightarrow> distance_squared_unit_to_unit_method1 s unit1 unit2
      | Some Unit_to_unit_method2 \<Rightarrow> distance_squared_unit_to_unit_method2 s unit1 unit2)"

subsection \<open>Selecting the strategy\<close>

definition distances_override_functions :: "distance_calculation \<Rightarrow> int \<Rightarrow> unit result" where
  "distances_override_functions s method =
     (if \<not> (0 \<le> method \<and> method \<le> 3)
      then (Inl (AssertionError (Selected_method_was method)), s)
      else if method = 0
      then (Inr (), s\<lparr>distance_squared_unit_to_unit := Some Unit_to_unit_method0\<rparr>)
      else if method = 1
      then (Inr (), s\<lparr>distance_squared_unit_to_unit := Some Unit_to_unit_method1,
                       calculate_distances := Some Build_method1\<rparr>)
      else if method = 2
      then (Inr (), s\<lparr>distance_squared_unit_to_unit := Some Unit_to_unit_method2,
                       calculate_distances := Some Build_method2\<rparr>)
      else if method = 3
      then (Inr (), s\<lparr>distance_squared_unit_to_unit := Some Unit_to_unit_method2,
                       calculate_distances := Some Build_method3\<rparr>)
      else (Inr (), s))"

subsection \<open>The arithmetic with rounding\<close>

text \<open>
  The same two computations with every floating-point operation followed by a rounding
  \<open>rnd\<close>, a parameter: the direct one as the source writes it (two subtractions, two
  \<^verbatim>\<open>pow\<close>, one addition), and the metric of the library as a sum accumulated from \<open>0\<close>
  over the columns. With the identity for \<open>rnd\<close> they are the exact ones above.
\<close>

definition distance_math_hypot_squared_rnd ::
  "(real \<Rightarrow> real) \<Rightarrow> real \<times> real \<Rightarrow> real \<times> real \<Rightarrow> real" where
  "distance_math_hypot_squared_rnd rnd p1 p2 =
     rnd (rnd ((rnd (fst p1 - fst p2))\<^sup>2) + rnd ((rnd (snd p1 - snd p2))\<^sup>2))"

definition distance_squared_unit_to_unit_method0_rnd ::
  "(real \<Rightarrow> real) \<Rightarrow> sc2_unit \<Rightarrow> sc2_unit \<Rightarrow> real" where
  "distance_squared_unit_to_unit_method0_rnd rnd unit1 unit2 =
     distance_math_hypot_squared_rnd rnd (position_tuple unit1) (position_tuple unit2)"

definition sqeuclidean_rnd :: "(real \<Rightarrow> real) \<Rightarrow> real list \<Rightarrow> real list \<Rightarrow> real" where
  "sqeuclidean_rnd rnd u v =
     foldl (\<lambda>s (a, b). rnd (s + rnd ((rnd (a - b))\<^sup>2))) 0 (zip u v)"

definition cdist_sqeuclidean_rnd ::
  "(real \<Rightarrow> real) \<Rightarrow> real list list \<Rightarrow> real list list \<Rightarrow> real list list" where
  "cdist_sqeuclidean_rnd rnd xa xb = map (\<lambda>a. map (sqeuclidean_rnd rnd a) xb) xa"

subsection \<open>Auxiliary definitions for the statements\<close>

text \<open>The rows of \<^verbatim>\<open>positions_array\<close>: one row \<^verbatim>\<open>[x, y]\<close> per unit.\<close>

definition position_rows :: "sc2_unit list \<Rightarrow> real list list" where
  "position_rows units =
     map (\<lambda>unit. [fst (position_tuple unit), snd (position_tuple unit)]) units"

text \<open>The offset formula of \<^verbatim>\<open>square_to_condensed\<close> for a count \<open>n\<close>, after the swap.\<close>

definition condensed_offset :: "int \<Rightarrow> int \<Rightarrow> int \<Rightarrow> int" where
  "condensed_offset n i j = n * j - j * (j + 1) div 2 + i - 1 - j"

text \<open>
  \<open>x\<close> lies within \<open>k\<close> roundings of relative error \<open>eps\<close> of the exact value \<open>e\<close>.
\<close>

definition within_rel :: "real \<Rightarrow> nat \<Rightarrow> real \<Rightarrow> real \<Rightarrow> bool" where
  "within_rel eps k e x \<longleftrightarrow> (1 - eps) ^ k * e \<le> x \<and> x \<le> (1 + eps) ^ k * e"

text \<open>
  A frame to evaluate on: three units at \<open>(0, 0)\<close>, \<open>(3, 4)\<close> and \<open>(0, 4)\<close>, in game loop 7,
  with nothing built yet; and the same frame after strategy 1 has been selected.
\<close>

definition example_units :: "sc2_unit list" where
  "example_units =
     [\<lparr>position_tuple = (0, 0), tag = 11, distance_calculation_index = 0\<rparr>,
      \<lparr>position_tuple = (3, 4), tag = 12, distance_calculation_index = 1\<rparr>,
      \<lparr>position_tuple = (0, 4), tag = 13, distance_calculation_index = 2\<rparr>]"

definition example_frame :: distance_calculation where
  "example_frame = (init example_units)\<lparr>state := Some \<lparr>game_loop = 7\<rparr>\<rparr>"

definition example_condensed :: distance_calculation where
  "example_condensed =
     example_frame\<lparr>distance_squared_unit_to_unit := Some Unit_to_unit_method1,
       calculate_distances := Some Build_method1\<rparr>"

definition example_square :: distance_calculation where
  "example_square =
     example_frame\<lparr>distance_squared_unit_to_unit := Some Unit_to_unit_method2,
       calculate_distances := Some Build_method2\<rparr>"

definition example_unit :: sc2_unit where
  "example_unit = \<lparr>position_tuple = (3, 4), tag = 12, distance_calculation_index = 1\<rparr>"

text \<open>
  A frame of four units under strategy 1 whose condensed vector has been built in this
  game loop, and two units kept from an earlier, larger frame, with the indices they had
  there.
\<close>

definition example4_units :: "sc2_unit list" where
  "example4_units =
     [\<lparr>position_tuple = (0, 0), tag = 21, distance_calculation_index = 0\<rparr>,
      \<lparr>position_tuple = (3, 4), tag = 22, distance_calculation_index = 1\<rparr>,
      \<lparr>position_tuple = (0, 4), tag = 23, distance_calculation_index = 2\<rparr>,
      \<lparr>position_tuple = (6, 8), tag = 24, distance_calculation_index = 3\<rparr>]"

definition example4_built :: distance_calculation where
  "example4_built =
     \<lparr>state = Some \<lparr>game_loop = 7\<rparr>, all_units = example4_units, generated_frame2 = 7,
      cached_pdist = Some [25, 16, 100, 9, 25, 52], cached_cdist = None,
      distance_squared_unit_to_unit = Some Unit_to_unit_method1,
      calculate_distances = Some Build_method1\<rparr>"

definition stale_unit1 :: sc2_unit where
  "stale_unit1 = \<lparr>position_tuple = (1, 1), tag = 31, distance_calculation_index = 9\<rparr>"

definition stale_unit2 :: sc2_unit where
  "stale_unit2 = \<lparr>position_tuple = (2, 2), tag = 32, distance_calculation_index = 8\<rparr>"

lemmas example_defs = example_condensed_def example_frame_def init_def example_units_def

lemmas query_defs = call_distance_squared_unit_to_unit_def
  distance_squared_unit_to_unit_method0_def distance_math_hypot_squared_def
  distance_squared_unit_to_unit_method1_def distance_squared_unit_to_unit_method2_def
  pdist_property_def cdist_property_def pdist_value_def cdist_value_def
  getitem1_def getitem2_def axis_index_def square_to_condensed_def

lemmas build_defs = call_calculate_distances_def calculate_distances_method1_def
  calculate_distances_method2_def calculate_distances_method3_def
  positions_array_n_2_def positions_array_any_2_def fromiter_def reshape_n_2_def
  reshape_any_2_def flat_positions_def assert_and_cache_pdist_def assert_and_cache_cdist_def
  cache_cdist_def units_count_def sqeuclidean_def cdist_sqeuclidean_def pdist_value_def
  cdist_value_def

section \<open>What the builds compute\<close>

text \<open>
  Every unit contributes exactly two coordinates, so \<^verbatim>\<open>fromiter\<close> finds the \<open>2 * N\<close> items
  it is asked for and both reshapes succeed on them, with the same rows.
\<close>

lemma length_flat_positions: "length (flat_positions units) = 2 * length units"
  by (induction units) (simp_all add: flat_positions_def)

lemma rows2_flat_positions: "rows2 (flat_positions units) = position_rows units"
  by (induction units) (simp_all add: flat_positions_def position_rows_def)

lemma length_position_rows: "length (position_rows units) = length units"
  by (simp add: position_rows_def)

lemma positions_array_n_2_eq: "positions_array_n_2 s = Inr (position_rows (all_units s))"
  by (simp add: positions_array_n_2_def fromiter_def reshape_n_2_def length_flat_positions
      rows2_flat_positions)

lemma positions_array_any_2_eq: "positions_array_any_2 s = Inr (position_rows (all_units s))"
  by (simp add: positions_array_any_2_def fromiter_def reshape_any_2_def length_flat_positions
      rows2_flat_positions)

text \<open>
  Hence a build fails only when \<^verbatim>\<open>state\<close> is \<^verbatim>\<open>None\<close>; otherwise it returns the table of
  the current units, having written the counter and one of the two cache attributes.
\<close>

lemma calculate_distances_method1_eq:
  "state s = Some g \<Longrightarrow>
   calculate_distances_method1 s =
     (Inr (Vec (pdist_sqeuclidean (position_rows (all_units s)))),
      s\<lparr>generated_frame2 := game_loop g,
        cached_pdist := Some (pdist_sqeuclidean (position_rows (all_units s)))\<rparr>)"
  by (simp add: calculate_distances_method1_def positions_array_n_2_eq
      assert_and_cache_pdist_def units_count_def length_position_rows pdist_value_def)

lemma calculate_distances_method2_eq:
  "state s = Some g \<Longrightarrow>
   calculate_distances_method2 s =
     (Inr (Mat (cdist_sqeuclidean (position_rows (all_units s)) (position_rows (all_units s)))),
      s\<lparr>generated_frame2 := game_loop g,
        cached_cdist := Some (cdist_sqeuclidean (position_rows (all_units s))
                                (position_rows (all_units s)))\<rparr>)"
  by (simp add: calculate_distances_method2_def positions_array_n_2_eq
      assert_and_cache_cdist_def units_count_def length_position_rows cdist_value_def)

lemma calculate_distances_method3_eq:
  "state s = Some g \<Longrightarrow>
   calculate_distances_method3 s =
     (Inr (Mat (cdist_sqeuclidean (position_rows (all_units s)) (position_rows (all_units s)))),
      s\<lparr>generated_frame2 := game_loop g,
        cached_cdist := Some (cdist_sqeuclidean (position_rows (all_units s))
                                (position_rows (all_units s)))\<rparr>)"
  by (simp add: calculate_distances_method3_def positions_array_any_2_eq cache_cdist_def
      cdist_value_def)

lemma call_calculate_distances_generated:
  "state s = Some g \<Longrightarrow> call_calculate_distances s = (Inr v, s') \<Longrightarrow>
   generated_frame2 s' = game_loop g \<and> state s' = Some g \<and> all_units s' = all_units s
   \<and> calculate_distances s' = calculate_distances s"
  by (auto simp: call_calculate_distances_def calculate_distances_method1_eq
      calculate_distances_method2_eq calculate_distances_method3_eq
      split: option.splits build_fn.splits)

section \<open>The frame-gated cache\<close>

lemma call_calculate_distances_method1:
  "state s = Some g \<Longrightarrow> calculate_distances s = Some Build_method1 \<Longrightarrow>
   call_calculate_distances s =
     (Inr (Vec (pdist_sqeuclidean (position_rows (all_units s)))),
      s\<lparr>generated_frame2 := game_loop g,
        cached_pdist := Some (pdist_sqeuclidean (position_rows (all_units s)))\<rparr>)"
  by (simp add: call_calculate_distances_def calculate_distances_method1_eq)

lemma call_calculate_distances_method23:
  "state s = Some g \<Longrightarrow>
   calculate_distances s = Some Build_method2 \<or> calculate_distances s = Some Build_method3 \<Longrightarrow>
   call_calculate_distances s =
     (Inr (Mat (cdist_sqeuclidean (position_rows (all_units s)) (position_rows (all_units s)))),
      s\<lparr>generated_frame2 := game_loop g,
        cached_cdist := Some (cdist_sqeuclidean (position_rows (all_units s))
                                (position_rows (all_units s)))\<rparr>)"
  by (auto simp: call_calculate_distances_def calculate_distances_method2_eq
      calculate_distances_method3_eq)

text \<open>
  C1. In a frame (the game state is present), each of the accessors \<^verbatim>\<open>_pdist\<close> and \<^verbatim>\<open>_cdist\<close>
  returns the cached attribute and leaves the object untouched when \<^verbatim>\<open>_generated_frame2\<close>
  equals \<^verbatim>\<open>game_loop\<close>, and is the call of \<^verbatim>\<open>calculate_distances\<close> otherwise. That call
  rebuilds: with the condensed build bound it returns the condensed vector of the
  current units and leaves it in \<^verbatim>\<open>_cached_pdist\<close>, with a square build bound it returns
  their square matrix and leaves it in \<^verbatim>\<open>_cached_cdist\<close>, in both cases with
  \<^verbatim>\<open>_generated_frame2\<close> set to \<^verbatim>\<open>game_loop\<close>; with nothing bound it raises. After a build that
  returns, both accessors serve from the cache. With the build of its own strategy bound,
  an accessor called again in the frame returns the value it returned first, and changes
  nothing.
\<close>

theorem cache_accessors_frame_gated:
  assumes "state s = Some g"
  shows "(generated_frame2 s = game_loop g \<longrightarrow>
            pdist_property s = (Inr (pdist_value (cached_pdist s)), s) \<and>
            cdist_property s = (Inr (cdist_value (cached_cdist s)), s))
       \<and> (generated_frame2 s \<noteq> game_loop g \<longrightarrow>
            pdist_property s = call_calculate_distances s \<and>
            cdist_property s = call_calculate_distances s)
       \<and> (generated_frame2 s \<noteq> game_loop g \<and> calculate_distances s = Some Build_method1 \<longrightarrow>
            pdist_property s =
              (Inr (Vec (pdist_sqeuclidean (position_rows (all_units s)))),
               s\<lparr>generated_frame2 := game_loop g,
                 cached_pdist := Some (pdist_sqeuclidean (position_rows (all_units s)))\<rparr>) \<and>
            cdist_property s = pdist_property s)
       \<and> (generated_frame2 s \<noteq> game_loop g \<and>
          (calculate_distances s = Some Build_method2 \<or>
           calculate_distances s = Some Build_method3) \<longrightarrow>
            cdist_property s =
              (Inr (Mat (cdist_sqeuclidean (position_rows (all_units s))
                           (position_rows (all_units s)))),
               s\<lparr>generated_frame2 := game_loop g,
                 cached_cdist := Some (cdist_sqeuclidean (position_rows (all_units s))
                                         (position_rows (all_units s)))\<rparr>) \<and>
            pdist_property s = cdist_property s)
       \<and> (generated_frame2 s \<noteq> game_loop g \<and> calculate_distances s = None \<longrightarrow>
            pdist_property s = (Inl AttributeError, s) \<and>
            cdist_property s = (Inl AttributeError, s))
       \<and> (\<forall>v s'. call_calculate_distances s = (Inr v, s') \<longrightarrow>
            generated_frame2 s' = game_loop g \<and> state s' = Some g \<and>
            pdist_property s' = (Inr (pdist_value (cached_pdist s')), s') \<and>
            cdist_property s' = (Inr (cdist_value (cached_cdist s')), s'))
       \<and> (\<forall>v s'. calculate_distances s = Some Build_method1 \<and>
                 pdist_property s = (Inr v, s') \<longrightarrow>
            pdist_property s' = (Inr v, s'))
       \<and> (\<forall>v s'. (calculate_distances s = Some Build_method2 \<or>
                  calculate_distances s = Some Build_method3) \<and>
                 cdist_property s = (Inr v, s') \<longrightarrow>
            cdist_property s' = (Inr v, s'))"
proof (intro conjI allI impI)
  assume "generated_frame2 s = game_loop g"
  then show "pdist_property s = (Inr (pdist_value (cached_pdist s)), s)"
    using assms by (simp add: pdist_property_def)
next
  assume "generated_frame2 s = game_loop g"
  then show "cdist_property s = (Inr (cdist_value (cached_cdist s)), s)"
    using assms by (simp add: cdist_property_def)
next
  assume "generated_frame2 s \<noteq> game_loop g"
  then show "pdist_property s = call_calculate_distances s"
    using assms by (simp add: pdist_property_def)
next
  assume "generated_frame2 s \<noteq> game_loop g"
  then show "cdist_property s = call_calculate_distances s"
    using assms by (simp add: cdist_property_def)
next
  assume a: "generated_frame2 s \<noteq> game_loop g \<and> calculate_distances s = Some Build_method1"
  then show "pdist_property s =
      (Inr (Vec (pdist_sqeuclidean (position_rows (all_units s)))),
       s\<lparr>generated_frame2 := game_loop g,
         cached_pdist := Some (pdist_sqeuclidean (position_rows (all_units s)))\<rparr>)"
    using assms by (simp add: pdist_property_def call_calculate_distances_method1)
  show "cdist_property s = pdist_property s"
    using a assms by (simp add: pdist_property_def cdist_property_def)
next
  assume a: "generated_frame2 s \<noteq> game_loop g \<and>
          (calculate_distances s = Some Build_method2 \<or>
           calculate_distances s = Some Build_method3)"
  then show "cdist_property s =
      (Inr (Mat (cdist_sqeuclidean (position_rows (all_units s))
                   (position_rows (all_units s)))),
       s\<lparr>generated_frame2 := game_loop g,
         cached_cdist := Some (cdist_sqeuclidean (position_rows (all_units s))
                                 (position_rows (all_units s)))\<rparr>)"
    using assms call_calculate_distances_method23 [of s g] by (simp add: cdist_property_def)
  show "pdist_property s = cdist_property s"
    using a assms by (simp add: pdist_property_def cdist_property_def)
next
  assume a: "generated_frame2 s \<noteq> game_loop g \<and> calculate_distances s = None"
  then show "pdist_property s = (Inl AttributeError, s)"
    using assms by (simp add: pdist_property_def call_calculate_distances_def)
  show "cdist_property s = (Inl AttributeError, s)"
    using a assms by (simp add: cdist_property_def call_calculate_distances_def)
next
  fix v s' assume b: "call_calculate_distances s = (Inr v, s')"
  note * = call_calculate_distances_generated [OF assms b]
  show "generated_frame2 s' = game_loop g" using * by simp
  show "state s' = Some g" using * by simp
  show "pdist_property s' = (Inr (pdist_value (cached_pdist s')), s')"
    using * by (simp add: pdist_property_def)
  show "cdist_property s' = (Inr (cdist_value (cached_cdist s')), s')"
    using * by (simp add: cdist_property_def)
next
  fix v s'
  assume "calculate_distances s = Some Build_method1 \<and> pdist_property s = (Inr v, s')"
  then show "pdist_property s' = (Inr v, s')"
    using assms
    by (auto simp: pdist_property_def call_calculate_distances_def pdist_value_def
        calculate_distances_method1_eq split: if_splits)
next
  fix v s'
  assume "(calculate_distances s = Some Build_method2 \<or>
           calculate_distances s = Some Build_method3) \<and> cdist_property s = (Inr v, s')"
  then show "cdist_property s' = (Inr v, s')"
    using assms
    by (auto simp: cdist_property_def call_calculate_distances_def cdist_value_def
        calculate_distances_method2_eq calculate_distances_method3_eq split: if_splits)
qed

text \<open>
  On the example: under strategy 1 the first access of \<^verbatim>\<open>_pdist\<close> is stale, builds and
  stores \<open>[25, 16, 9]\<close>, and the second returns the same vector from the cache; under
  strategy 2 the same holds of \<^verbatim>\<open>_cdist\<close> and the matrix; with no build bound the stale
  access raises.
\<close>

theorem cache_accessors_frame_gated_witness:
  "pdist_property example_condensed = call_calculate_distances example_condensed
   \<and> fst (pdist_property example_condensed) = Inr (Vec [25, 16, 9])
   \<and> generated_frame2 (snd (pdist_property example_condensed)) = 7
   \<and> cached_pdist (snd (pdist_property example_condensed)) = Some [25, 16, 9]
   \<and> pdist_property (snd (pdist_property example_condensed)) =
       (Inr (Vec [25, 16, 9]), snd (pdist_property example_condensed))
   \<and> fst (cdist_property example_square) = Inr (Mat [[0, 25, 16], [25, 0, 9], [16, 9, 0]])
   \<and> generated_frame2 (snd (cdist_property example_square)) = 7
   \<and> cached_cdist (snd (cdist_property example_square)) =
       Some [[0, 25, 16], [25, 0, 9], [16, 9, 0]]
   \<and> cdist_property (snd (cdist_property example_square)) =
       (Inr (Mat [[0, 25, 16], [25, 0, 9], [16, 9, 0]]), snd (cdist_property example_square))
   \<and> pdist_property example_frame = (Inl AttributeError, example_frame)"
proof -
  let ?g = "\<lparr>game_loop = 7\<rparr>"
  have c: "state example_condensed = Some ?g"
    "generated_frame2 example_condensed \<noteq> game_loop ?g"
    "calculate_distances example_condensed = Some Build_method1"
    by (simp_all add: example_defs)
  have q: "state example_square = Some ?g"
    "generated_frame2 example_square \<noteq> game_loop ?g"
    "calculate_distances example_square = Some Build_method2"
    by (simp_all add: example_square_def example_defs)
  have f: "state example_frame = Some ?g"
    "generated_frame2 example_frame \<noteq> game_loop ?g"
    "calculate_distances example_frame = None"
    by (simp_all add: example_defs)
  have v: "pdist_sqeuclidean (position_rows example_units) = [25, 16, 9]"
    by (simp add: example_units_def position_rows_def sqeuclidean_def)
  have m: "cdist_sqeuclidean (position_rows example_units) (position_rows example_units) =
      [[0, 25, 16], [25, 0, 9], [16, 9, 0]]"
    by (simp add: example_units_def position_rows_def sqeuclidean_def cdist_sqeuclidean_def)
  have uc: "all_units example_condensed = example_units"
    and uq: "all_units example_square = example_units"
    by (simp_all add: example_square_def example_defs)
  note tc = cache_accessors_frame_gated [OF c(1)]
  note tq = cache_accessors_frame_gated [OF q(1)]
  note tf = cache_accessors_frame_gated [OF f(1)]
  note c2 = conjunct2
  have p1: "pdist_property example_condensed = call_calculate_distances example_condensed"
    using tc [THEN c2, THEN conjunct1] c(2) by blast
  have p2: "pdist_property example_condensed =
      (Inr (Vec [25, 16, 9]),
       example_condensed\<lparr>generated_frame2 := 7, cached_pdist := Some [25, 16, 9]\<rparr>)"
    using tc [THEN c2, THEN c2, THEN conjunct1, rule_format, OF conjI [OF c(2) c(3)]]
    by (simp add: uc v)
  have p3: "pdist_property
        (example_condensed\<lparr>generated_frame2 := 7, cached_pdist := Some [25, 16, 9]\<rparr>) =
      (Inr (Vec [25, 16, 9]),
       example_condensed\<lparr>generated_frame2 := 7, cached_pdist := Some [25, 16, 9]\<rparr>)"
    using tc [THEN c2, THEN c2, THEN c2, THEN c2, THEN c2, THEN c2, THEN conjunct1,
        rule_format, OF conjI [OF c(3) p2]] .
  have q2: "cdist_property example_square =
      (Inr (Mat [[0, 25, 16], [25, 0, 9], [16, 9, 0]]),
       example_square\<lparr>generated_frame2 := 7,
         cached_cdist := Some [[0, 25, 16], [25, 0, 9], [16, 9, 0]]\<rparr>)"
    using tq [THEN c2, THEN c2, THEN c2, THEN conjunct1, rule_format,
        OF conjI [OF q(2) disjI1 [OF q(3)]]]
    by (simp add: uq m)
  have q3: "cdist_property
        (example_square\<lparr>generated_frame2 := 7,
           cached_cdist := Some [[0, 25, 16], [25, 0, 9], [16, 9, 0]]\<rparr>) =
      (Inr (Mat [[0, 25, 16], [25, 0, 9], [16, 9, 0]]),
       example_square\<lparr>generated_frame2 := 7,
         cached_cdist := Some [[0, 25, 16], [25, 0, 9], [16, 9, 0]]\<rparr>)"
    using tq [THEN c2, THEN c2, THEN c2, THEN c2, THEN c2, THEN c2, THEN c2,
        rule_format, OF conjI [OF disjI1 [OF q(3)] q2]] .
  have f1: "pdist_property example_frame = (Inl AttributeError, example_frame)"
    using tf [THEN c2, THEN c2, THEN c2, THEN c2, THEN conjunct1, rule_format,
        OF conjI [OF f(2) f(3)]]
    by simp
  have p1': "call_calculate_distances example_condensed = pdist_property example_condensed"
    using p1 by simp
  show ?thesis by (simp add: p1' p2 p3 q2 q3 f1)
qed

text \<open>
  C10. The two accessors compare the same counter. Whichever build has just run in a
  frame, the counter equals \<^verbatim>\<open>game_loop\<close>; so after the condensed build \<^verbatim>\<open>_cdist\<close> returns,
  without building, what \<^verbatim>\<open>_cached_cdist\<close> held before that build (\<^verbatim>\<open>None\<close> or an older
  matrix), and after either square build \<^verbatim>\<open>_pdist\<close> returns what \<^verbatim>\<open>_cached_pdist\<close> held.
\<close>

theorem shared_generation_counter:
  assumes "state s = Some g"
  shows "generated_frame2 (snd (calculate_distances_method1 s)) = game_loop g
       \<and> cdist_property (snd (calculate_distances_method1 s)) =
           (Inr (cdist_value (cached_cdist s)), snd (calculate_distances_method1 s))
       \<and> generated_frame2 (snd (calculate_distances_method2 s)) = game_loop g
       \<and> pdist_property (snd (calculate_distances_method2 s)) =
           (Inr (pdist_value (cached_pdist s)), snd (calculate_distances_method2 s))
       \<and> generated_frame2 (snd (calculate_distances_method3 s)) = game_loop g
       \<and> pdist_property (snd (calculate_distances_method3 s)) =
           (Inr (pdist_value (cached_pdist s)), snd (calculate_distances_method3 s))"
  using assms
  by (simp add: calculate_distances_method1_eq calculate_distances_method2_eq
      calculate_distances_method3_eq pdist_property_def cdist_property_def)

text \<open>On the example, where nothing was cached before: the other accessor returns \<^verbatim>\<open>None\<close>.\<close>

theorem shared_generation_counter_witness:
  "fst (calculate_distances_method1 example_frame) = Inr (Vec [25, 16, 9])
   \<and> cdist_property (snd (calculate_distances_method1 example_frame)) =
       (Inr PyNone, snd (calculate_distances_method1 example_frame))
   \<and> fst (calculate_distances_method2 example_frame) =
       Inr (Mat [[0, 25, 16], [25, 0, 9], [16, 9, 0]])
   \<and> pdist_property (snd (calculate_distances_method2 example_frame)) =
       (Inr PyNone, snd (calculate_distances_method2 example_frame))"
  using shared_generation_counter [of example_frame "\<lparr>game_loop = 7\<rparr>"]
  by (simp add: example_defs build_defs pdist_property_def cdist_property_def
      pdist_value_def cdist_value_def)

section \<open>The index mapping\<close>

subsection \<open>The condensed layout\<close>

text \<open>
  The formula and the layout of \<^verbatim>\<open>pdist\<close> fit: for rows \<open>j < i\<close> of an array of \<open>n\<close> rows the
  offset is a valid position of the condensed vector, and the entry there is the distance
  between row \<open>j\<close> and row \<open>i\<close>.
\<close>

lemma condensed_offset_0: "condensed_offset n i 0 = i - 1"
  by (simp add: condensed_offset_def)

lemma condensed_offset_step:
  "condensed_offset (n + 1) (i + 1) (j + 1) = n + condensed_offset n i j"
proof -
  have "(j + 1) * (j + 1 + 1) = j * (j + 1) + 2 * (j + 1)" by algebra
  then have "(j + 1) * (j + 1 + 1) div 2 = j * (j + 1) div 2 + (j + 1)" by simp
  then show ?thesis by (simp add: condensed_offset_def algebra_simps)
qed

lemma length_pdist_sqeuclidean:
  "2 * length (pdist_sqeuclidean ps) + length ps = length ps * length ps"
  by (induction ps) (simp_all add: algebra_simps)

lemma pdist_sqeuclidean_nth:
  "j < i \<Longrightarrow> i < length ps \<Longrightarrow>
   \<exists>k. condensed_offset (int (length ps)) (int i) (int j) = int k
     \<and> k < length (pdist_sqeuclidean ps)
     \<and> pdist_sqeuclidean ps ! k = sqeuclidean (ps ! j) (ps ! i)"
proof (induction ps arbitrary: i j)
  case Nil
  then show ?case by simp
next
  case (Cons p ps)
  obtain i' where i: "i = Suc i'" using Cons.prems by (cases i) auto
  show ?case
  proof (cases j)
    case 0
    have "condensed_offset (int (length (p # ps))) (int i) (int j) = int i'"
      using 0 i by (simp add: condensed_offset_0)
    moreover have "i' < length ps" using Cons.prems i by simp
    ultimately show ?thesis using 0 i by (auto simp: nth_append)
  next
    case (Suc j')
    have "j' < i'" "i' < length ps" using Cons.prems i Suc by simp_all
    from Cons.IH [OF this] obtain k where
      k: "condensed_offset (int (length ps)) (int i') (int j') = int k"
         "k < length (pdist_sqeuclidean ps)"
         "pdist_sqeuclidean ps ! k = sqeuclidean (ps ! j') (ps ! i')"
      by blast
    have "condensed_offset (int (length (p # ps))) (int i) (int j) = int (length ps + k)"
      using condensed_offset_step [of "int (length ps)" "int i'" "int j'"] k(1) i Suc
      by (simp add: add.commute)
    then show ?thesis using k(2,3) i Suc by (auto simp: nth_append)
  qed
qed

lemma square_to_condensed_offset:
  "i \<noteq> j \<Longrightarrow>
   square_to_condensed s i j = Inr (condensed_offset (units_count s) (max i j) (min i j))"
  by (simp add: square_to_condensed_def condensed_offset_def min_def max_def)

subsection \<open>The claims on \<^verbatim>\<open>square_to_condensed\<close>\<close>

text \<open>
  C2. For distinct indices, \<^verbatim>\<open>square_to_condensed\<close> returns \<open>N * j - j * (j + 1) div 2 + i - 1 - j\<close>
  with \<open>i\<close> the larger and \<open>j\<close> the smaller of the two. \<open>N\<close> is \<^verbatim>\<open>_units_count\<close>, the count the
  condensed build reads too: in a frame, the build over the same units stores a vector of
  \<open>N * (N - 1) / 2\<close> entries and leaves the offset of every pair as it was.
\<close>

theorem square_to_condensed_formula:
  assumes "i \<noteq> j"
  shows "square_to_condensed s i j =
           Inr (units_count s * min i j - min i j * (min i j + 1) div 2 + max i j - 1 - min i j)
       \<and> (\<forall>g. state s = Some g \<longrightarrow>
            (\<exists>v. calculate_distances_method1 s =
                    (Inr (Vec v), s\<lparr>generated_frame2 := game_loop g, cached_pdist := Some v\<rparr>)
               \<and> 2 * int (length v) = units_count s * (units_count s - 1)
               \<and> square_to_condensed (snd (calculate_distances_method1 s)) i j =
                   square_to_condensed s i j))"
proof (intro conjI allI impI)
  show "square_to_condensed s i j =
          Inr (units_count s * min i j - min i j * (min i j + 1) div 2 + max i j - 1 - min i j)"
    using assms by (simp add: square_to_condensed_def min_def max_def)
next
  fix g assume g: "state s = Some g"
  let ?v = "pdist_sqeuclidean (position_rows (all_units s))"
  have "int (2 * length ?v + length (all_units s)) =
          int (length (all_units s) * length (all_units s))"
    using length_pdist_sqeuclidean [of "position_rows (all_units s)"]
    by (simp only: length_position_rows)
  then have "2 * int (length ?v) = units_count s * (units_count s - 1)"
    by (simp add: units_count_def algebra_simps)
  moreover have "square_to_condensed (snd (calculate_distances_method1 s)) i j =
                   square_to_condensed s i j"
    using g by (simp add: calculate_distances_method1_eq square_to_condensed_def units_count_def)
  ultimately show "\<exists>v. calculate_distances_method1 s =
                    (Inr (Vec v), s\<lparr>generated_frame2 := game_loop g, cached_pdist := Some v\<rparr>)
               \<and> 2 * int (length v) = units_count s * (units_count s - 1)
               \<and> square_to_condensed (snd (calculate_distances_method1 s)) i j =
                   square_to_condensed s i j"
    using g by (simp add: calculate_distances_method1_eq)
qed

text \<open>On the example (\<open>N = 3\<close>): the pair \<open>(1, 2)\<close>, given in either order, has offset \<open>2\<close>.\<close>

theorem square_to_condensed_formula_witness:
  "square_to_condensed example_frame 1 2 = Inr 2
   \<and> square_to_condensed example_frame 2 1 = Inr 2
   \<and> fst (calculate_distances_method1 example_frame) = Inr (Vec [25, 16, 9])
   \<and> square_to_condensed (snd (calculate_distances_method1 example_frame)) 1 2 = Inr 2"
  using square_to_condensed_formula [of 1 2 example_frame]
    square_to_condensed_formula [of 2 1 example_frame]
  by (simp add: example_defs build_defs)

text \<open>C6. For distinct indices the offset does not depend on their order.\<close>

theorem square_to_condensed_symmetric:
  "i \<noteq> j \<Longrightarrow> square_to_condensed s i j = square_to_condensed s j i"
  by (simp add: square_to_condensed_def)

theorem square_to_condensed_symmetric_witness:
  "square_to_condensed example_frame 2 0 = Inr 1
   \<and> square_to_condensed example_frame 0 2 = Inr 1"
  using square_to_condensed_symmetric [of 2 0 example_frame]
  by (simp add: square_to_condensed_def units_count_def example_defs)

text \<open>
  C8. On equal indices \<^verbatim>\<open>square_to_condensed\<close> raises the \<^verbatim>\<open>AssertionError\<close> with its
  message on diagonal elements; no offset is returned, whatever the object holds.
\<close>

theorem square_to_condensed_diagonal:
  "square_to_condensed s i i = Inl (AssertionError No_diagonal_elements)"
  by (simp add: square_to_condensed_def)

section \<open>Selecting the strategy\<close>

text \<open>
  C9. \<^verbatim>\<open>_distances_override_functions\<close> raises the \<^verbatim>\<open>AssertionError\<close> naming the mode for
  every mode outside \<open>0..3\<close>, binding nothing. For a mode in \<open>0..3\<close> it returns: mode 0
  binds the direct implementation, mode 1 the condensed query and build, mode 2 the
  square query and the checked square build, mode 3 the square query and the unchecked
  square build.
\<close>

theorem distances_override_functions_modes:
  "(\<not> (0 \<le> method \<and> method \<le> 3) \<longrightarrow>
      distances_override_functions s method =
        (Inl (AssertionError (Selected_method_was method)), s))
   \<and> (0 \<le> method \<and> method \<le> 3 \<longrightarrow> fst (distances_override_functions s method) = Inr ())
   \<and> (method = 0 \<longrightarrow>
      distances_override_functions s method =
        (Inr (), s\<lparr>distance_squared_unit_to_unit := Some Unit_to_unit_method0\<rparr>))
   \<and> (method = 1 \<longrightarrow>
      distances_override_functions s method =
        (Inr (), s\<lparr>distance_squared_unit_to_unit := Some Unit_to_unit_method1,
                    calculate_distances := Some Build_method1\<rparr>))
   \<and> (method = 2 \<longrightarrow>
      distances_override_functions s method =
        (Inr (), s\<lparr>distance_squared_unit_to_unit := Some Unit_to_unit_method2,
                    calculate_distances := Some Build_method2\<rparr>))
   \<and> (method = 3 \<longrightarrow>
      distances_override_functions s method =
        (Inr (), s\<lparr>distance_squared_unit_to_unit := Some Unit_to_unit_method2,
                    calculate_distances := Some Build_method3\<rparr>))"
  by (simp add: distances_override_functions_def)

theorem distances_override_functions_modes_witness:
  "distances_override_functions (init []) 4 =
     (Inl (AssertionError (Selected_method_was 4)), init [])
   \<and> distances_override_functions (init []) (- 1) =
       (Inl (AssertionError (Selected_method_was (- 1))), init [])
   \<and> distance_squared_unit_to_unit (snd (distances_override_functions (init []) 0)) =
       Some Unit_to_unit_method0
   \<and> calculate_distances (snd (distances_override_functions (init []) 0)) = None
   \<and> calculate_distances (snd (distances_override_functions (init []) 1)) = Some Build_method1
   \<and> calculate_distances (snd (distances_override_functions (init []) 2)) = Some Build_method2
   \<and> calculate_distances (snd (distances_override_functions (init []) 3)) = Some Build_method3"
  using distances_override_functions_modes [of 4 "init []"]
    distances_override_functions_modes [of "- 1" "init []"]
    distances_override_functions_modes [of 0 "init []"]
    distances_override_functions_modes [of 1 "init []"]
    distances_override_functions_modes [of 2 "init []"]
    distances_override_functions_modes [of 3 "init []"]
  by (simp add: init_def)

section \<open>The assertion of the builds\<close>

lemma length_concat_rows2:
  "\<forall>row \<in> set a. length row = 2 \<Longrightarrow> length (concat a) = 2 * length a"
  by (induction a) simp_all

text \<open>
  C7. Take the builds from the point where \<^verbatim>\<open>positions_array\<close>, an array of two columns,
  is bound. In methods 1 and 2, when its flattened length is not \<open>2 * N\<close> the assertion
  fails: the build raises \<^verbatim>\<open>AssertionError\<close> and caches nothing; when it is \<open>2 * N\<close> the
  table is stored and returned. Method 3 stores and returns the matrix of any array: it
  has no assertion. Each build is this remainder, run on the rows of the current units
  after the counter has been written.
\<close>

theorem position_count_asserted:
  assumes "\<forall>row \<in> set positions_array. length row = 2"
  shows "(length (concat positions_array) \<noteq> 2 * length (all_units s) \<longrightarrow>
            assert_and_cache_pdist s positions_array = (Inl (AssertionError No_message), s) \<and>
            assert_and_cache_cdist s positions_array = (Inl (AssertionError No_message), s))
       \<and> (length (concat positions_array) = 2 * length (all_units s) \<longrightarrow>
            assert_and_cache_pdist s positions_array =
              (Inr (Vec (pdist_sqeuclidean positions_array)),
               s\<lparr>cached_pdist := Some (pdist_sqeuclidean positions_array)\<rparr>) \<and>
            assert_and_cache_cdist s positions_array =
              (Inr (Mat (cdist_sqeuclidean positions_array positions_array)),
               s\<lparr>cached_cdist := Some (cdist_sqeuclidean positions_array positions_array)\<rparr>))
       \<and> cache_cdist s positions_array =
           (Inr (Mat (cdist_sqeuclidean positions_array positions_array)),
            s\<lparr>cached_cdist := Some (cdist_sqeuclidean positions_array positions_array)\<rparr>)
       \<and> (\<forall>g. state s = Some g \<longrightarrow>
            calculate_distances_method1 s =
              assert_and_cache_pdist (s\<lparr>generated_frame2 := game_loop g\<rparr>)
                (position_rows (all_units s)) \<and>
            calculate_distances_method2 s =
              assert_and_cache_cdist (s\<lparr>generated_frame2 := game_loop g\<rparr>)
                (position_rows (all_units s)) \<and>
            calculate_distances_method3 s =
              cache_cdist (s\<lparr>generated_frame2 := game_loop g\<rparr>) (position_rows (all_units s)))"
  using length_concat_rows2 [OF assms]
  by (simp add: assert_and_cache_pdist_def assert_and_cache_cdist_def cache_cdist_def
      units_count_def calculate_distances_method1_def calculate_distances_method2_def
      calculate_distances_method3_def positions_array_n_2_eq positions_array_any_2_eq
      pdist_value_def cdist_value_def)

text \<open>
  On the example of three units: an array of two rows fails the assertion of methods 1
  and 2 and is stored by method 3; an array of three rows passes.
\<close>

theorem position_count_asserted_witness:
  "assert_and_cache_pdist example_frame [[0, 0], [3, 4]] =
     (Inl (AssertionError No_message), example_frame)
   \<and> assert_and_cache_cdist example_frame [[0, 0], [3, 4]] =
     (Inl (AssertionError No_message), example_frame)
   \<and> fst (cache_cdist example_frame [[0, 0], [3, 4]]) = Inr (Mat [[0, 25], [25, 0]])
   \<and> fst (assert_and_cache_pdist example_frame [[0, 0], [3, 4], [0, 4]]) = Inr (Vec [25, 16, 9])"
  using position_count_asserted [of "[[0, 0], [3, 4]]" example_frame]
    position_count_asserted [of "[[0, 0], [3, 4], [0, 4]]" example_frame]
  by (simp add: example_defs sqeuclidean_def cdist_sqeuclidean_def pdist_value_def
      cdist_value_def)

text \<open>
  Inside a build the assertion always holds: \<^verbatim>\<open>fromiter\<close> and the reshape have fixed the
  shape before. So the checked and the unchecked square build are the same function.
\<close>

lemma calculate_distances_method3_is_method2:
  "calculate_distances_method3 s = calculate_distances_method2 s"
proof (cases "state s")
  case None
  then show ?thesis
    by (simp add: calculate_distances_method2_def calculate_distances_method3_def)
next
  case (Some g)
  then show ?thesis
    by (simp add: calculate_distances_method2_eq calculate_distances_method3_eq)
qed

section \<open>The queries\<close>

subsection \<open>An entity with itself\<close>

lemma sqeuclidean_self: "sqeuclidean u u = 0"
  by (induction u) (simp_all add: sqeuclidean_def)

lemma getitem2_cdist_diagonal:
  "- int (length P) \<le> k \<Longrightarrow> k < int (length P) \<Longrightarrow>
   getitem2 (Mat (cdist_sqeuclidean P P)) k k = Inr (Num 0)"
  by (auto simp: getitem2_def axis_index_def cdist_sqeuclidean_def sqeuclidean_self Let_def)

text \<open>
  C4. The squared distance of a unit to itself is \<open>0\<close> under each strategy. Strategy 0
  computes it; strategy 1 returns it on the equal tags, in any state and without touching
  the cache or the index formula; strategies 2 and 3 read the diagonal of the square
  matrix, either the one they build now, when the cache is stale and the unit's index
  addresses a row of the current units, or the cached one, when it was built in this game
  loop and the index addresses one of its rows. (For these arguments the exact
  arithmetic of the model is that of the doubles: \<open>x - x\<close> is \<open>0\<close> for every finite \<open>x\<close>.)
\<close>

theorem self_distance_zero:
  "distance_squared_unit_to_unit_method0 u u = 0
   \<and> (distance_squared_unit_to_unit s = Some Unit_to_unit_method0 \<longrightarrow>
        call_distance_squared_unit_to_unit s u u = (Inr (Num 0), s))
   \<and> (distance_squared_unit_to_unit s = Some Unit_to_unit_method1 \<longrightarrow>
        call_distance_squared_unit_to_unit s u u = (Inr (Num 0), s))
   \<and> (\<forall>g. distance_squared_unit_to_unit s = Some Unit_to_unit_method2 \<and>
          (calculate_distances s = Some Build_method2 \<or>
           calculate_distances s = Some Build_method3) \<and>
          state s = Some g \<and> generated_frame2 s \<noteq> game_loop g \<and>
          - units_count s \<le> distance_calculation_index u \<and>
          distance_calculation_index u < units_count s \<longrightarrow>
        call_distance_squared_unit_to_unit s u u =
          (Inr (Num 0), snd (call_calculate_distances s)))
   \<and> (\<forall>g P. distance_squared_unit_to_unit s = Some Unit_to_unit_method2 \<and>
          state s = Some g \<and> generated_frame2 s = game_loop g \<and>
          cached_cdist s = Some (cdist_sqeuclidean P P) \<and>
          - int (length P) \<le> distance_calculation_index u \<and>
          distance_calculation_index u < int (length P) \<longrightarrow>
        call_distance_squared_unit_to_unit s u u = (Inr (Num 0), s))"
proof (intro conjI allI impI)
  show z: "distance_squared_unit_to_unit_method0 u u = 0"
    by (simp add: distance_squared_unit_to_unit_method0_def distance_math_hypot_squared_def)
  assume "distance_squared_unit_to_unit s = Some Unit_to_unit_method0"
  then show "call_distance_squared_unit_to_unit s u u = (Inr (Num 0), s)"
    using z by (simp add: call_distance_squared_unit_to_unit_def)
next
  assume "distance_squared_unit_to_unit s = Some Unit_to_unit_method1"
  then show "call_distance_squared_unit_to_unit s u u = (Inr (Num 0), s)"
    by (simp add: call_distance_squared_unit_to_unit_def
        distance_squared_unit_to_unit_method1_def)
next
  fix g
  assume a: "distance_squared_unit_to_unit s = Some Unit_to_unit_method2 \<and>
          (calculate_distances s = Some Build_method2 \<or>
           calculate_distances s = Some Build_method3) \<and>
          state s = Some g \<and> generated_frame2 s \<noteq> game_loop g \<and>
          - units_count s \<le> distance_calculation_index u \<and>
          distance_calculation_index u < units_count s"
  let ?P = "position_rows (all_units s)"
  have d: "getitem2 (Mat (cdist_sqeuclidean ?P ?P)) (distance_calculation_index u)
             (distance_calculation_index u) = Inr (Num 0)"
    using a by (intro getitem2_cdist_diagonal) (simp_all add: units_count_def length_position_rows)
  have "fst (call_calculate_distances s) = Inr (Mat (cdist_sqeuclidean ?P ?P))"
    using a by (auto simp: call_calculate_distances_def calculate_distances_method2_eq
        calculate_distances_method3_eq)
  moreover have "cdist_property s = call_calculate_distances s"
    using a by (simp add: cdist_property_def)
  ultimately show "call_distance_squared_unit_to_unit s u u =
          (Inr (Num 0), snd (call_calculate_distances s))"
    using a d
    by (cases "call_calculate_distances s")
      (simp add: call_distance_squared_unit_to_unit_def
        distance_squared_unit_to_unit_method2_def)
next
  fix g P
  assume a: "distance_squared_unit_to_unit s = Some Unit_to_unit_method2 \<and>
          state s = Some g \<and> generated_frame2 s = game_loop g \<and>
          cached_cdist s = Some (cdist_sqeuclidean P P) \<and>
          - int (length P) \<le> distance_calculation_index u \<and>
          distance_calculation_index u < int (length P)"
  have d: "getitem2 (Mat (cdist_sqeuclidean P P)) (distance_calculation_index u)
             (distance_calculation_index u) = Inr (Num 0)"
    using a by (intro getitem2_cdist_diagonal) simp_all
  show "call_distance_squared_unit_to_unit s u u = (Inr (Num 0), s)"
    using a d
    by (simp add: call_distance_squared_unit_to_unit_def
        distance_squared_unit_to_unit_method2_def cdist_property_def cdist_value_def)
qed

text \<open>
  On the example, for the unit at index 1: directly; under strategy 1; under strategy 2
  with a stale cache (nothing built yet, three units); and under strategy 2 again, in the
  state the first build has left.
\<close>

theorem self_distance_zero_witness:
  "distance_squared_unit_to_unit_method0 example_unit example_unit = 0
   \<and> call_distance_squared_unit_to_unit example_condensed example_unit example_unit =
       (Inr (Num 0), example_condensed)
   \<and> generated_frame2 example_square = - 100 \<and> units_count example_square = 3
   \<and> fst (call_distance_squared_unit_to_unit example_square example_unit example_unit) =
       Inr (Num 0)
   \<and> generated_frame2 (snd (call_calculate_distances example_square)) = 7
   \<and> fst (call_distance_squared_unit_to_unit
            (snd (call_calculate_distances example_square)) example_unit example_unit) =
       Inr (Num 0)"
  using self_distance_zero [of example_unit example_condensed]
    self_distance_zero [of example_unit example_square]
    self_distance_zero [of example_unit "snd (call_calculate_distances example_square)"]
  by (simp add: example_square_def example_unit_def example_defs build_defs query_defs)

subsection \<open>The bounds assertion of the condensed query\<close>

text \<open>The frame of four units is the state that the condensed build leaves.\<close>

lemma example4_built_is_built:
  "calculate_distances_method1
     (example4_built\<lparr>generated_frame2 := - 100, cached_pdist := None\<rparr>) =
     (Inr (Vec [25, 16, 100, 9, 25, 52]), example4_built)"
  by (simp add: example4_built_def example4_units_def build_defs)

text \<open>
  Before anything has been built, \<^verbatim>\<open>_cached_pdist\<close> is \<^verbatim>\<open>None\<close>: the assertion cannot take its
  length, and the query raises \<^verbatim>\<open>TypeError\<close>.
\<close>

lemma condensed_query_before_any_build:
  "distance_squared_unit_to_unit_method1 example_condensed
     (example_units ! 0) (example_units ! 1) = (Inl TypeError, example_condensed)"
  by (simp add: example_defs distance_squared_unit_to_unit_method1_def square_to_condensed_def
      units_count_def)

text \<open>
  C5, as amended. For a strategy-1 query on two units with distinct tags, made while the
  condensed vector of the current frame is cached (the counter equals \<^verbatim>\<open>game_loop\<close> and
  \<^verbatim>\<open>_cached_pdist\<close> holds a vector), the computed offset is asserted to be less than the
  length of that vector before the lookup: an offset at or above the length raises the
  \<^verbatim>\<open>AssertionError\<close> that carries the offset, the length and the two units, and leaves the
  object as it was. The theorem also fixes the rest of such a query: on equal indices no
  offset is computed and \<^verbatim>\<open>square_to_condensed\<close> raises; an offset in \<open>[0, length)\<close> returns
  the entry at the offset; and a distance is returned only for an offset below the
  length.
\<close>

theorem condensed_offset_asserted_below_length:
  assumes "tag unit1 \<noteq> tag unit2"
    and "state s = Some g" and "generated_frame2 s = game_loop g"
    and "cached_pdist s = Some v"
  shows "(distance_calculation_index unit1 = distance_calculation_index unit2 \<longrightarrow>
            distance_squared_unit_to_unit_method1 s unit1 unit2 =
              (Inl (AssertionError No_diagonal_elements), s))
       \<and> (\<forall>k. square_to_condensed s (distance_calculation_index unit1)
                 (distance_calculation_index unit2) = Inr k \<longrightarrow>
            (int (length v) \<le> k \<longrightarrow>
               distance_squared_unit_to_unit_method1 s unit1 unit2 =
                 (Inl (AssertionError (Condensed_index_is_larger k (length v) unit1 unit2)), s))
          \<and> (0 \<le> k \<and> k < int (length v) \<longrightarrow>
               distance_squared_unit_to_unit_method1 s unit1 unit2 =
                 (Inr (Num (v ! nat k)), s)))
       \<and> (\<forall>d s'. distance_squared_unit_to_unit_method1 s unit1 unit2 = (Inr d, s') \<longrightarrow>
            (\<exists>k. square_to_condensed s (distance_calculation_index unit1)
                    (distance_calculation_index unit2) = Inr k \<and> k < int (length v)))"
proof (intro conjI allI impI)
  assume "distance_calculation_index unit1 = distance_calculation_index unit2"
  then show "distance_squared_unit_to_unit_method1 s unit1 unit2 =
      (Inl (AssertionError No_diagonal_elements), s)"
    using assms(1) by (simp add: distance_squared_unit_to_unit_method1_def square_to_condensed_def)
next
  fix k
  assume k: "square_to_condensed s (distance_calculation_index unit1)
               (distance_calculation_index unit2) = Inr k"
    and "int (length v) \<le> k"
  then show "distance_squared_unit_to_unit_method1 s unit1 unit2 =
      (Inl (AssertionError (Condensed_index_is_larger k (length v) unit1 unit2)), s)"
    using assms(1,4) by (simp add: distance_squared_unit_to_unit_method1_def)
next
  fix k
  assume k: "square_to_condensed s (distance_calculation_index unit1)
               (distance_calculation_index unit2) = Inr k"
    and "0 \<le> k \<and> k < int (length v)"
  then show "distance_squared_unit_to_unit_method1 s unit1 unit2 = (Inr (Num (v ! nat k)), s)"
    using assms
    by (simp add: distance_squared_unit_to_unit_method1_def pdist_property_def pdist_value_def
        getitem1_def axis_index_def)
next
  fix d s'
  assume "distance_squared_unit_to_unit_method1 s unit1 unit2 = (Inr d, s')"
  then show "\<exists>k. square_to_condensed s (distance_calculation_index unit1)
                (distance_calculation_index unit2) = Inr k \<and> k < int (length v)"
    using assms(1,4)
    by (cases "square_to_condensed s (distance_calculation_index unit1)
                 (distance_calculation_index unit2)")
      (auto simp: distance_squared_unit_to_unit_method1_def split: if_splits)
qed

text \<open>
  In the frame of four units (six entries): the units at indices 3 and 2 have offset 5
  and get the entry \<open>52\<close>; a unit with index 9 against the unit at index 0 has offset 8
  and raises; two units with distinct tags and the same index 3 raise in
  \<^verbatim>\<open>square_to_condensed\<close>.
\<close>

theorem condensed_offset_asserted_below_length_witness:
  "distance_squared_unit_to_unit_method1 example4_built
     \<lparr>position_tuple = (6, 8), tag = 24, distance_calculation_index = 3\<rparr>
     \<lparr>position_tuple = (0, 4), tag = 23, distance_calculation_index = 2\<rparr> =
     (Inr (Num 52), example4_built)
   \<and> distance_squared_unit_to_unit_method1 example4_built stale_unit1
     \<lparr>position_tuple = (0, 0), tag = 21, distance_calculation_index = 0\<rparr> =
     (Inl (AssertionError (Condensed_index_is_larger 8 6 stale_unit1
        \<lparr>position_tuple = (0, 0), tag = 21, distance_calculation_index = 0\<rparr>)), example4_built)
   \<and> distance_squared_unit_to_unit_method1 example4_built
     \<lparr>position_tuple = (6, 8), tag = 24, distance_calculation_index = 3\<rparr>
     \<lparr>position_tuple = (0, 4), tag = 23, distance_calculation_index = 3\<rparr> =
     (Inl (AssertionError No_diagonal_elements), example4_built)"
proof -
  let ?g = "\<lparr>game_loop = 7\<rparr>" and ?v = "[25, 16, 100, 9, 25, 52] :: real list"
  let ?a = "\<lparr>position_tuple = (6, 8), tag = 24, distance_calculation_index = 3\<rparr>"
  let ?b = "\<lparr>position_tuple = (0, 4), tag = 23, distance_calculation_index = 2\<rparr>"
  let ?c = "\<lparr>position_tuple = (0, 4), tag = 23, distance_calculation_index = 3\<rparr>"
  let ?z = "\<lparr>position_tuple = (0, 0), tag = 21, distance_calculation_index = 0\<rparr>"
  have h: "state example4_built = Some ?g" "generated_frame2 example4_built = game_loop ?g"
    "cached_pdist example4_built = Some ?v"
    by (simp_all add: example4_built_def)
  have k5: "square_to_condensed example4_built (distance_calculation_index ?a)
      (distance_calculation_index ?b) = Inr 5"
    by (simp add: square_to_condensed_def units_count_def example4_built_def example4_units_def)
  have k8: "square_to_condensed example4_built (distance_calculation_index stale_unit1)
      (distance_calculation_index ?z) = Inr 8"
    by (simp add: square_to_condensed_def units_count_def example4_built_def example4_units_def
        stale_unit1_def)
  have ab: "tag ?a \<noteq> tag ?b" and ac: "tag ?a \<noteq> tag ?c" and sz: "tag stale_unit1 \<noteq> tag ?z"
    by (simp_all add: stale_unit1_def)
  have "distance_squared_unit_to_unit_method1 example4_built ?a ?b =
      (Inr (Num 52), example4_built)"
    using condensed_offset_asserted_below_length [OF ab h, THEN conjunct2, THEN conjunct1,
        rule_format, OF k5]
    by simp
  moreover have "distance_squared_unit_to_unit_method1 example4_built stale_unit1 ?z =
      (Inl (AssertionError (Condensed_index_is_larger 8 6 stale_unit1 ?z)), example4_built)"
    using condensed_offset_asserted_below_length [OF sz h, THEN conjunct2, THEN conjunct1,
        rule_format, OF k8]
    by simp
  moreover have "distance_squared_unit_to_unit_method1 example4_built ?a ?c =
      (Inl (AssertionError No_diagonal_elements), example4_built)"
    using condensed_offset_asserted_below_length [OF ac h, THEN conjunct1]
    by simp
  ultimately show ?thesis by blast
qed

text \<open>
  C5, as stated, fails on a negative offset. In the same frame, whose vector of six
  entries was built in this game loop, the two units kept from an earlier frame (indices
  9 and 8, distinct tags) have offset \<open>4 * 8 - 36 + 9 - 1 - 8 = - 4\<close>, which is outside the
  vector. The assertion \<open>- 4 < 6\<close> passes, the lookup counts from the end, and the query
  returns the entry \<open>100\<close> of another pair, with no error; the squared distance of the
  two units is \<open>2\<close>.
\<close>

theorem negative_offset_passes_assertion:
  "tag stale_unit1 \<noteq> tag stale_unit2
   \<and> square_to_condensed example4_built (distance_calculation_index stale_unit1)
        (distance_calculation_index stale_unit2) = Inr (- 4)
   \<and> cached_pdist example4_built = Some [25, 16, 100, 9, 25, 52]
   \<and> generated_frame2 example4_built = 7 \<and> state example4_built = Some \<lparr>game_loop = 7\<rparr>
   \<and> \<not> (0 \<le> (- 4 :: int) \<and> (- 4 :: int) < int (length [25, 16, 100, 9, 25, 52 :: real]))
   \<and> distance_squared_unit_to_unit_method1 example4_built stale_unit1 stale_unit2 =
       (Inr (Num 100), example4_built)
   \<and> distance_squared_unit_to_unit_method0 stale_unit1 stale_unit2 = 2"
  by (simp add: example4_built_def example4_units_def stale_unit1_def stale_unit2_def
      query_defs units_count_def)

section \<open>The tables against direct arithmetic\<close>

text \<open>
  In the exact arithmetic of the model the tables hold what strategy 0 computes: the
  square matrix at \<open>[i, j]\<close>, and the condensed vector at the offset of \<open>i\<close> and \<open>j\<close>, hold
  the squared distance between the units at positions \<open>i\<close> and \<open>j\<close> of \<^verbatim>\<open>all_units\<close>.
\<close>

lemma sqeuclidean_position_rows:
  "i < length units \<Longrightarrow> j < length units \<Longrightarrow>
   sqeuclidean (position_rows units ! i) (position_rows units ! j) =
     distance_squared_unit_to_unit_method0 (units ! i) (units ! j)"
  by (simp add: position_rows_def sqeuclidean_def distance_squared_unit_to_unit_method0_def
      distance_math_hypot_squared_def)

lemma square_lookup_exact:
  assumes "i < length units" and "j < length units"
  shows "getitem2 (Mat (cdist_sqeuclidean (position_rows units) (position_rows units)))
           (int i) (int j) =
         Inr (Num (distance_squared_unit_to_unit_method0 (units ! i) (units ! j)))"
  using assms sqeuclidean_position_rows [OF assms]
  by (simp add: getitem2_def axis_index_def cdist_sqeuclidean_def length_position_rows)

lemma condensed_lookup_exact:
  assumes "j < i" and "i < length (all_units s)"
  shows "\<exists>k. square_to_condensed s (int i) (int j) = Inr (int k)
           \<and> square_to_condensed s (int j) (int i) = Inr (int k)
           \<and> k < length (pdist_sqeuclidean (position_rows (all_units s)))
           \<and> pdist_sqeuclidean (position_rows (all_units s)) ! k =
               distance_squared_unit_to_unit_method0 (all_units s ! j) (all_units s ! i)"
proof -
  have i: "i < length (position_rows (all_units s))"
    using assms by (simp add: length_position_rows)
  from pdist_sqeuclidean_nth [OF assms(1) i] obtain k where
    k: "condensed_offset (int (length (position_rows (all_units s)))) (int i) (int j) = int k"
       "k < length (pdist_sqeuclidean (position_rows (all_units s)))"
       "pdist_sqeuclidean (position_rows (all_units s)) ! k =
          sqeuclidean (position_rows (all_units s) ! j) (position_rows (all_units s) ! i)"
    by blast
  have "square_to_condensed s (int i) (int j) = Inr (int k)"
    using assms(1) k(1)
    by (simp add: square_to_condensed_offset units_count_def length_position_rows max_def min_def)
  moreover have "square_to_condensed s (int j) (int i) = Inr (int k)"
    using assms(1) k(1)
    by (simp add: square_to_condensed_offset units_count_def length_position_rows max_def min_def)
  moreover have "sqeuclidean (position_rows (all_units s) ! j) (position_rows (all_units s) ! i) =
      distance_squared_unit_to_unit_method0 (all_units s ! j) (all_units s ! i)"
    using assms by (intro sqeuclidean_position_rows) simp_all
  ultimately show ?thesis using k(2,3) by auto
qed

subsection \<open>Rounding\<close>

text \<open>
  The standard model of floating-point arithmetic: an operation returns its exact result
  with a relative error of at most \<open>eps\<close>, overflow and underflow aside. Under it the
  direct computation is within four roundings of the exact squared distance and the
  metric of the library, on rows of two columns, within five.
\<close>

lemma within_rel_rnd:
  assumes eps: "0 \<le> eps" "eps \<le> 1" and e: "0 \<le> e"
    and rnd: "\<forall>x. \<bar>rnd x - x\<bar> \<le> eps * \<bar>x\<bar>"
    and w: "within_rel eps k e x"
  shows "within_rel eps (Suc k) e (rnd x)"
proof -
  have lo: "(1 - eps) ^ k * e \<le> x" and hi: "x \<le> (1 + eps) ^ k * e"
    using w by (simp_all add: within_rel_def)
  have "0 \<le> (1 - eps) ^ k * e" using eps e by simp
  then have x0: "0 \<le> x" using lo by linarith
  have "\<bar>rnd x - x\<bar> \<le> eps * x" using rnd x0 by (metis abs_of_nonneg)
  then have r: "(1 - eps) * x \<le> rnd x" "rnd x \<le> (1 + eps) * x"
    by (simp_all add: algebra_simps abs_le_iff)
  have "(1 - eps) * ((1 - eps) ^ k * e) \<le> (1 - eps) * x"
    using lo eps by (intro mult_left_mono) simp_all
  moreover have "(1 + eps) * x \<le> (1 + eps) * ((1 + eps) ^ k * e)"
    using hi eps by (intro mult_left_mono) simp_all
  ultimately show ?thesis using r by (simp add: within_rel_def mult.assoc)
qed

lemma within_rel_square:
  assumes eps: "0 \<le> eps" "eps \<le> 1"
    and rnd: "\<forall>x. \<bar>rnd x - x\<bar> \<le> eps * \<bar>x\<bar>"
  shows "within_rel eps 2 (d\<^sup>2) ((rnd d)\<^sup>2)"
proof -
  have a: "\<bar>rnd d - d\<bar> \<le> eps * \<bar>d\<bar>" using rnd by blast
  have up: "\<bar>rnd d\<bar> \<le> (1 + eps) * \<bar>d\<bar>" using a by (simp add: algebra_simps)
  have lo: "(1 - eps) * \<bar>d\<bar> \<le> \<bar>rnd d\<bar>" using a by (simp add: algebra_simps)
  have "\<bar>rnd d\<bar>\<^sup>2 \<le> ((1 + eps) * \<bar>d\<bar>)\<^sup>2"
    using up by (intro power_mono) simp_all
  moreover have "((1 - eps) * \<bar>d\<bar>)\<^sup>2 \<le> \<bar>rnd d\<bar>\<^sup>2"
    using lo eps by (intro power_mono) simp_all
  ultimately show ?thesis by (simp add: within_rel_def power_mult_distrib)
qed

lemma within_rel_add:
  "within_rel eps k e x \<Longrightarrow> within_rel eps k f y \<Longrightarrow> within_rel eps k (e + f) (x + y)"
  by (simp add: within_rel_def algebra_simps) 

lemma within_rel_mono:
  assumes eps: "0 \<le> eps" "eps \<le> 1" and e: "0 \<le> e"
    and w: "within_rel eps k e x" and k: "k \<le> k'"
  shows "within_rel eps k' e x"
proof -
  have "(1 - eps) ^ k' \<le> (1 - eps) ^ k" using eps k by (intro power_decreasing) simp_all
  then have "(1 - eps) ^ k' * e \<le> (1 - eps) ^ k * e" using e by (intro mult_right_mono)
  moreover have "(1 + eps) ^ k \<le> (1 + eps) ^ k'" using eps k by (intro power_increasing) simp_all
  then have "(1 + eps) ^ k * e \<le> (1 + eps) ^ k' * e" using e by (intro mult_right_mono)
  ultimately show ?thesis using w by (simp add: within_rel_def)
qed


lemma within_rel_diff:
  assumes "within_rel eps k e x" and "within_rel eps k e y"
  shows "\<bar>x - y\<bar> \<le> ((1 + eps) ^ k - (1 - eps) ^ k) * e"
proof -
  have "(1 - eps) ^ k * e \<le> x" "x \<le> (1 + eps) ^ k * e"
    "(1 - eps) ^ k * e \<le> y" "y \<le> (1 + eps) ^ k * e"
    using assms by (simp_all add: within_rel_def)
  then have "\<bar>x - y\<bar> \<le> (1 + eps) ^ k * e - (1 - eps) ^ k * e" by linarith
  then show ?thesis by (simp add: algebra_simps)
qed

lemma within_rel_rnd_square:
  assumes eps: "0 \<le> eps" "eps \<le> 1"
    and rnd: "\<forall>x. \<bar>rnd x - x\<bar> \<le> eps * \<bar>x\<bar>"
  shows "within_rel eps 3 (d\<^sup>2) (rnd ((rnd d)\<^sup>2))"
proof -
  have "within_rel eps (Suc 2) (d\<^sup>2) (rnd ((rnd d)\<^sup>2))"
    using within_rel_rnd [OF eps _ rnd within_rel_square [OF eps rnd]] by simp
  then show ?thesis by (simp add: eval_nat_numeral)
qed

lemma distance_math_hypot_squared_rnd_within:
  assumes eps: "0 \<le> eps" "eps \<le> 1"
    and rnd: "\<forall>x. \<bar>rnd x - x\<bar> \<le> eps * \<bar>x\<bar>"
  shows "within_rel eps 4 (distance_math_hypot_squared p1 p2)
           (distance_math_hypot_squared_rnd rnd p1 p2)"
proof -
  let ?dx = "fst p1 - fst p2" and ?dy = "snd p1 - snd p2"
  have s: "within_rel eps 3 (?dx\<^sup>2 + ?dy\<^sup>2)
      (rnd ((rnd ?dx)\<^sup>2) + rnd ((rnd ?dy)\<^sup>2))"
    by (intro within_rel_add within_rel_rnd_square eps rnd)
  have "within_rel eps (Suc 3) (?dx\<^sup>2 + ?dy\<^sup>2)
      (rnd (rnd ((rnd ?dx)\<^sup>2) + rnd ((rnd ?dy)\<^sup>2)))"
    using within_rel_rnd [OF eps _ rnd s] by simp
  then show ?thesis
    by (simp add: distance_math_hypot_squared_def distance_math_hypot_squared_rnd_def
        eval_nat_numeral)
qed

lemma sqeuclidean_rnd_within:
  assumes eps: "0 \<le> eps" "eps \<le> 1"
    and rnd: "\<forall>x. \<bar>rnd x - x\<bar> \<le> eps * \<bar>x\<bar>"
  shows "within_rel eps 5 (sqeuclidean [x1, y1] [x2, y2])
           (sqeuclidean_rnd rnd [x1, y1] [x2, y2])"
proof -
  let ?dx = "x1 - x2" and ?dy = "y1 - y2"
  have "within_rel eps (Suc 3) (?dx\<^sup>2) (rnd (rnd ((rnd ?dx)\<^sup>2)))"
    using within_rel_rnd [OF eps _ rnd within_rel_rnd_square [OF eps rnd]] by simp
  then have a: "within_rel eps 4 (?dx\<^sup>2) (rnd (rnd ((rnd ?dx)\<^sup>2)))"
    by (simp add: eval_nat_numeral)
  have b: "within_rel eps 4 (?dy\<^sup>2) (rnd ((rnd ?dy)\<^sup>2))"
    using within_rel_mono [OF eps _ within_rel_rnd_square [OF eps rnd], of ?dy 4] by simp
  have "within_rel eps (Suc 4) (?dx\<^sup>2 + ?dy\<^sup>2)
      (rnd (rnd (rnd ((rnd ?dx)\<^sup>2)) + rnd ((rnd ?dy)\<^sup>2)))"
    using within_rel_rnd [OF eps _ rnd within_rel_add [OF a b]] by simp
  then show ?thesis
    by (simp add: sqeuclidean_def sqeuclidean_rnd_def eval_nat_numeral)
qed

lemma sqeuclidean_rnd_exact: "sqeuclidean_rnd (\<lambda>x. x) u v = sqeuclidean u v"
proof -
  have "foldl (\<lambda>s (a, b). s + (a - b)\<^sup>2) acc zs = acc + sum_list (map (\<lambda>(a, b). (a - b)\<^sup>2) zs)"
    for acc :: real and zs
    by (induction zs arbitrary: acc) (auto simp: algebra_simps)
  then show ?thesis by (simp add: sqeuclidean_rnd_def sqeuclidean_def)
qed


lemma cdist_sqeuclidean_rnd_exact:
  "cdist_sqeuclidean_rnd (\<lambda>x. x) xa xb = cdist_sqeuclidean xa xb"
  by (simp add: cdist_sqeuclidean_rnd_def cdist_sqeuclidean_def sqeuclidean_rnd_exact)

lemma distance_squared_unit_to_unit_method0_rnd_exact:
  "distance_squared_unit_to_unit_method0_rnd (\<lambda>x. x) unit1 unit2 =
     distance_squared_unit_to_unit_method0 unit1 unit2"
  by (simp add: distance_squared_unit_to_unit_method0_rnd_def
      distance_math_hypot_squared_rnd_def distance_squared_unit_to_unit_method0_def
      distance_math_hypot_squared_def)

lemma rounded_entry_near_direct:
  assumes eps: "0 \<le> eps" "eps \<le> 1"
    and rnd_d: "\<forall>x. \<bar>rnd_d x - x\<bar> \<le> eps * \<bar>x\<bar>"
    and rnd_k: "\<forall>x. \<bar>rnd_k x - x\<bar> \<le> eps * \<bar>x\<bar>"
    and i: "i < length units" and j: "j < length units"
  shows "\<bar>sqeuclidean_rnd rnd_k (position_rows units ! i) (position_rows units ! j)
          - distance_squared_unit_to_unit_method0_rnd rnd_d (units ! i) (units ! j)\<bar>
         \<le> ((1 + eps) ^ 5 - (1 - eps) ^ 5)
             * distance_squared_unit_to_unit_method0 (units ! i) (units ! j)"
proof -
  let ?e = "distance_squared_unit_to_unit_method0 (units ! i) (units ! j)"
  have e0: "0 \<le> ?e"
    by (simp add: distance_squared_unit_to_unit_method0_def distance_math_hypot_squared_def)
  have "within_rel eps 4 ?e (distance_squared_unit_to_unit_method0_rnd rnd_d (units ! i) (units ! j))"
    using distance_math_hypot_squared_rnd_within [OF eps rnd_d]
    by (simp add: distance_squared_unit_to_unit_method0_def
        distance_squared_unit_to_unit_method0_rnd_def)
  then have a: "within_rel eps 5 ?e
      (distance_squared_unit_to_unit_method0_rnd rnd_d (units ! i) (units ! j))"
    by (rule within_rel_mono [OF eps e0]) simp
  have "within_rel eps 5
      (sqeuclidean (position_rows units ! i) (position_rows units ! j))
      (sqeuclidean_rnd rnd_k (position_rows units ! i) (position_rows units ! j))"
    using i j sqeuclidean_rnd_within [OF eps rnd_k] by (simp add: position_rows_def)
  then have b: "within_rel eps 5 ?e
      (sqeuclidean_rnd rnd_k (position_rows units ! i) (position_rows units ! j))"
    using sqeuclidean_position_rows [OF i j] by simp
  show ?thesis by (rule within_rel_diff [OF b a])
qed

lemma getitem2_cdist_rnd:
  "i < length P \<Longrightarrow> j < length P \<Longrightarrow>
   getitem2 (Mat (cdist_sqeuclidean_rnd rnd P P)) (int i) (int j) =
     Inr (Num (sqeuclidean_rnd rnd (P ! i) (P ! j)))"
  by (simp add: getitem2_def axis_index_def cdist_sqeuclidean_rnd_def)

subsection \<open>Strategy 2 against strategy 0\<close>

text \<open>
  C3. Take two units of the current frame, each carrying as its index its position in
  \<^verbatim>\<open>all_units\<close>, under strategy 2 (the square query bound). Their squared distance by lookup
  is the one strategy 0 computes: when the cache is stale, the query builds the matrix
  (checked or unchecked build) and returns that value; when the matrix of the current
  units is cached for this game loop, it returns that value and changes nothing. This is
  equality in exact arithmetic. With rounding, for any two rounding operators of relative
  error at most \<open>eps\<close>, one for the direct computation and one for the library's, the entry
  of the matrix and the directly computed value differ by at most
  \<open>((1 + eps)\<^sup>5 - (1 - eps)\<^sup>5)\<close> times the exact squared distance.
\<close>

theorem square_strategy_agrees_with_direct:
  assumes "i < length (all_units s)" and "j < length (all_units s)"
    and "distance_calculation_index (all_units s ! i) = int i"
    and "distance_calculation_index (all_units s ! j) = int j"
    and "state s = Some g"
    and "distance_squared_unit_to_unit s = Some Unit_to_unit_method2"
  shows "(generated_frame2 s \<noteq> game_loop g \<and>
          (calculate_distances s = Some Build_method2 \<or>
           calculate_distances s = Some Build_method3) \<longrightarrow>
            call_distance_squared_unit_to_unit s (all_units s ! i) (all_units s ! j) =
              (Inr (Num (distance_squared_unit_to_unit_method0
                           (all_units s ! i) (all_units s ! j))),
               snd (call_calculate_distances s)))
       \<and> (generated_frame2 s = game_loop g \<and>
          cached_cdist s = Some (cdist_sqeuclidean (position_rows (all_units s))
                                   (position_rows (all_units s))) \<longrightarrow>
            call_distance_squared_unit_to_unit s (all_units s ! i) (all_units s ! j) =
              (Inr (Num (distance_squared_unit_to_unit_method0
                           (all_units s ! i) (all_units s ! j))), s))
       \<and> (\<forall>eps rnd_d rnd_k.
            0 \<le> eps \<and> eps \<le> 1 \<and> (\<forall>x. \<bar>rnd_d x - x\<bar> \<le> eps * \<bar>x\<bar>) \<and>
            (\<forall>x. \<bar>rnd_k x - x\<bar> \<le> eps * \<bar>x\<bar>) \<longrightarrow>
            (\<exists>d. getitem2 (Mat (cdist_sqeuclidean_rnd rnd_k (position_rows (all_units s))
                                   (position_rows (all_units s)))) (int i) (int j) =
                   Inr (Num d)
              \<and> \<bar>d - distance_squared_unit_to_unit_method0_rnd rnd_d
                        (all_units s ! i) (all_units s ! j)\<bar>
                 \<le> ((1 + eps) ^ 5 - (1 - eps) ^ 5)
                     * distance_squared_unit_to_unit_method0
                         (all_units s ! i) (all_units s ! j)))"
proof (intro conjI allI impI)
  let ?P = "position_rows (all_units s)"
  let ?d = "distance_squared_unit_to_unit_method0 (all_units s ! i) (all_units s ! j)"
  have look: "getitem2 (Mat (cdist_sqeuclidean ?P ?P))
      (distance_calculation_index (all_units s ! i))
      (distance_calculation_index (all_units s ! j)) = Inr (Num ?d)"
    using square_lookup_exact [OF assms(1,2)] assms(3,4) by simp
  {
    assume a: "generated_frame2 s \<noteq> game_loop g \<and>
          (calculate_distances s = Some Build_method2 \<or>
           calculate_distances s = Some Build_method3)"
    have "fst (call_calculate_distances s) = Inr (Mat (cdist_sqeuclidean ?P ?P))"
      using a assms(5) by (auto simp: call_calculate_distances_def calculate_distances_method2_eq
          calculate_distances_method3_eq)
    moreover have "cdist_property s = call_calculate_distances s"
      using a assms(5) by (simp add: cdist_property_def)
    ultimately show "call_distance_squared_unit_to_unit s (all_units s ! i) (all_units s ! j) =
        (Inr (Num ?d), snd (call_calculate_distances s))"
      using assms(6) look
      by (cases "call_calculate_distances s")
        (simp add: call_distance_squared_unit_to_unit_def
          distance_squared_unit_to_unit_method2_def)
  }
  {
    assume a: "generated_frame2 s = game_loop g \<and> cached_cdist s = Some (cdist_sqeuclidean ?P ?P)"
    show "call_distance_squared_unit_to_unit s (all_units s ! i) (all_units s ! j) =
        (Inr (Num ?d), s)"
      using a assms(5,6) look
      by (simp add: call_distance_squared_unit_to_unit_def
          distance_squared_unit_to_unit_method2_def cdist_property_def cdist_value_def)
  }
  {
    fix eps :: real and rnd_d rnd_k :: "real \<Rightarrow> real"
    assume a: "0 \<le> eps \<and> eps \<le> 1 \<and> (\<forall>x. \<bar>rnd_d x - x\<bar> \<le> eps * \<bar>x\<bar>) \<and>
            (\<forall>x. \<bar>rnd_k x - x\<bar> \<le> eps * \<bar>x\<bar>)"
    have "getitem2 (Mat (cdist_sqeuclidean_rnd rnd_k ?P ?P)) (int i) (int j) =
        Inr (Num (sqeuclidean_rnd rnd_k (?P ! i) (?P ! j)))"
      using assms(1,2) by (intro getitem2_cdist_rnd) (simp_all add: length_position_rows)
    moreover have "\<bar>sqeuclidean_rnd rnd_k (?P ! i) (?P ! j)
          - distance_squared_unit_to_unit_method0_rnd rnd_d (all_units s ! i) (all_units s ! j)\<bar>
         \<le> ((1 + eps) ^ 5 - (1 - eps) ^ 5) * ?d"
      using a assms(1,2) by (intro rounded_entry_near_direct) simp_all
    ultimately show "\<exists>d. getitem2 (Mat (cdist_sqeuclidean_rnd rnd_k ?P ?P)) (int i) (int j) =
                   Inr (Num d)
              \<and> \<bar>d - distance_squared_unit_to_unit_method0_rnd rnd_d
                        (all_units s ! i) (all_units s ! j)\<bar>
                 \<le> ((1 + eps) ^ 5 - (1 - eps) ^ 5) * ?d"
      by blast
  }
qed

text \<open>
  On the example, for the units at \<open>(0, 0)\<close> and \<open>(3, 4)\<close>: the stale query builds and returns
  \<open>25\<close>, the query after it returns \<open>25\<close> from the cache, and strategy 0 computes \<open>25\<close>; with
  an exact direct computation and a library rounding that always errs upwards by a
  thousandth, the entry is within the bound for \<open>eps = 1/1000\<close>.
\<close>

theorem square_strategy_agrees_with_direct_witness:
  "call_distance_squared_unit_to_unit example_square (example_units ! 0) (example_units ! 1) =
     (Inr (Num 25), snd (call_calculate_distances example_square))
   \<and> call_distance_squared_unit_to_unit (snd (call_calculate_distances example_square))
       (example_units ! 0) (example_units ! 1) =
     (Inr (Num 25), snd (call_calculate_distances example_square))
   \<and> distance_squared_unit_to_unit_method0 (example_units ! 0) (example_units ! 1) = 25
   \<and> (\<exists>d. getitem2 (Mat (cdist_sqeuclidean_rnd (\<lambda>x. x * (1001 / 1000))
                (position_rows example_units) (position_rows example_units))) 0 1 = Inr (Num d)
        \<and> \<bar>d - distance_squared_unit_to_unit_method0_rnd (\<lambda>x. x)
                 (example_units ! 0) (example_units ! 1)\<bar>
           \<le> ((1 + 1 / 1000) ^ 5 - (1 - 1 / 1000) ^ 5) * 25)"
proof -
  let ?g = "\<lparr>game_loop = 7\<rparr>"
  let ?s = "snd (call_calculate_distances example_square)"
  have r0: "\<forall>x :: real. \<bar>x - x\<bar> \<le> 1 / 1000 * \<bar>x\<bar>" by simp
  have r2: "\<forall>x :: real. \<bar>x * (1001 / 1000) - x\<bar> \<le> 1 / 1000 * \<bar>x\<bar>" by simp
  have s: "?s = example_square\<lparr>generated_frame2 := 7,
      cached_cdist := Some (cdist_sqeuclidean (position_rows example_units)
                              (position_rows example_units))\<rparr>"
    by (simp add: example_square_def example_defs call_calculate_distances_def
        calculate_distances_method2_eq)
  have d: "distance_squared_unit_to_unit_method0 (example_units ! 0) (example_units ! 1) = 25"
    by (simp add: example_units_def distance_squared_unit_to_unit_method0_def
        distance_math_hypot_squared_def)
  have stale: "call_distance_squared_unit_to_unit example_square
       (example_units ! 0) (example_units ! 1) = (Inr (Num 25), ?s)"
    using square_strategy_agrees_with_direct [of 0 example_square 1 ?g] d
    by (simp add: example_square_def example_defs)
  have fresh: "call_distance_squared_unit_to_unit ?s
       (example_units ! 0) (example_units ! 1) = (Inr (Num 25), ?s)"
    using square_strategy_agrees_with_direct [of 0 ?s 1 ?g] d
    by (simp add: s) (simp add: example_square_def example_defs)
  have "\<exists>d. getitem2 (Mat (cdist_sqeuclidean_rnd (\<lambda>x. x * (1001 / 1000))
                (position_rows example_units) (position_rows example_units))) 0 1 = Inr (Num d)
        \<and> \<bar>d - distance_squared_unit_to_unit_method0_rnd (\<lambda>x. x)
                 (example_units ! 0) (example_units ! 1)\<bar>
           \<le> ((1 + 1 / 1000) ^ 5 - (1 - 1 / 1000) ^ 5) * 25"
    using square_strategy_agrees_with_direct [of 0 example_square 1 ?g,
        THEN conjunct2, THEN conjunct2, rule_format,
        where eps = "1 / 1000" and rnd_d = "\<lambda>x. x" and rnd_k = "\<lambda>x. x * (1001 / 1000)"]
      d r0 r2
    by (simp add: example_square_def example_defs)
  with stale fresh d show ?thesis by blast
qed

end
